theory Spec2Isabelle
  imports Main "HOL-Library.Word" "HOL-Library.Sublist"
begin

unbundle bit_operations_syntax

section \<open>Common conventions\<close>

text \<open>
  A Go call either returns a value or panics (nil dereference, index out of range).
  Functions of the model that can panic return an \<open>outcome\<close>.
\<close>

datatype 'a outcome = Returns 'a | Panics

type_synonym byte = "8 word"

section \<open>observable/observable.go\<close>

text \<open>
  A \<open>Subscription\<close> is a receive-only channel; channels are compared by identity, so a
  channel is modelled by the number the allocator gave it.
\<close>

type_synonym Subscription = nat

text \<open>
  Modelled from the spec: the type \<open>Subscriber\<close> with \<open>newSubscriber\<close>, \<open>Out\<close> and
  \<open>Close\<close> (subscriber.go) is not among the sources. Section 4.5 of the specification
  describes a subscriber as a receiver keyed by an opaque handle, which \<open>unsubscribe\<close>
  closes. A subscriber owns one channel; \<open>Out\<close> returns it; \<open>newSubscriber\<close> makes a
  new channel; \<open>Close\<close> marks that channel closed.
\<close>

record Subscriber =
  buffer :: Subscription

definition Out :: "Subscriber \<Rightarrow> Subscription" where
  "Out sub = buffer sub"

text \<open>
  The state seen by the methods of \<open>Observable\<close>: the \<open>sync.Map\<close> of listeners, the
  flag \<open>done\<close> (named \<open>is_done\<close> here), the channel allocator, the set of closed
  channels and the lines written by \<open>println\<close>.
\<close>

record Observable =
  listener :: "Subscription \<rightharpoonup> Subscriber"
  is_done :: bool
  next_chan :: nat
  closed :: "Subscription set"
  printed :: "string list"

definition newSubscriber :: "Observable \<Rightarrow> Subscriber \<times> Observable" where
  "newSubscriber ob = (\<lparr>buffer = next_chan ob\<rparr>, ob\<lparr>next_chan := Suc (next_chan ob)\<rparr>)"

definition Subscriber_Close :: "Subscriber \<Rightarrow> Observable \<Rightarrow> Observable" where
  "Subscriber_Close sub ob = ob\<lparr>closed := insert (buffer sub) (closed ob)\<rparr>"

text \<open>\<open>Observable.Subscribe\<close>: the result is the pair (subscription, error) of the source.\<close>

definition Subscribe ::
  "Observable \<Rightarrow> (Subscription option \<times> string option) \<times> Observable" where
  "Subscribe ob =
     (if is_done ob = True then ((None, Some ''Observable is closed''), ob)
      else
        (let (subscriber, ob1) = newSubscriber ob;
             ob2 = ob1\<lparr>listener := (listener ob1)(Out subscriber \<mapsto> subscriber)\<rparr>
         in ((Some (Out subscriber), None), ob2)))"

text \<open>\<open>Observable.UnSubscribe\<close>.\<close>

definition UnSubscribe :: "Subscription \<Rightarrow> Observable \<Rightarrow> Observable" where
  "UnSubscribe sub ob =
     (case listener ob sub of
        None \<Rightarrow> ob\<lparr>printed := printed ob @ [''not exist'']\<rparr>
      | Some subscriber \<Rightarrow>
          (let ob1 = ob\<lparr>listener := (listener ob)(Out subscriber := None)\<rparr>
           in Subscriber_Close subscriber ob1))"

text \<open>\<open>Observable.close\<close>: sets the flag, then closes every subscriber of the map.\<close>

definition Observable_close :: "Observable \<Rightarrow> Observable" where
  "Observable_close ob =
     ob\<lparr>is_done := True, closed := closed ob \<union> buffer ` ran (listener ob)\<rparr>"

text \<open>\<open>NewObservable\<close>: an empty listener map, not done.\<close>

definition NewObservable :: Observable where
  "NewObservable =
     \<lparr>listener = Map.empty, is_done = False, next_chan = 0, closed = {}, printed = []\<rparr>"

text \<open>
  Every entry of the listener map was stored by \<open>Subscribe\<close>, under the key
  \<open>subscriber.Out()\<close> of a channel that had been allocated.
\<close>

definition listener_ok :: "Observable \<Rightarrow> bool" where
  "listener_ok ob \<longleftrightarrow>
     finite (dom (listener ob)) \<and>
     (\<forall>k sub. listener ob k = Some sub \<longrightarrow> Out sub = k \<and> k < next_chan ob)"


section \<open>The destination address (constant.Addr)\<close>

text \<open>
  The struct \<open>C.Addr\<close> is declared outside the sources; its fields are those that
  \<open>parseHttpAddr\<close> (proxy/http/server.go) fills in. \<open>IP\<close> is a pointer to a byte slice,
  \<open>None\<close> being the nil pointer. \<open>Port\<close> is a string.
\<close>

datatype NetWork = TCP

record Addr =
  NetWork :: NetWork
  AddrType :: int
  Host :: string
  IP :: "byte list option"
  Port :: string

text \<open>
  The address types of package socks (go-shadowsocks2), with the values that section 6.2
  of the specification lists.
\<close>

definition AtypIPv4 :: int where "AtypIPv4 = 1"
definition AtypDomainName :: int where "AtypDomainName = 3"
definition AtypIPv6 :: int where "AtypIPv6 = 4"

subsection \<open>Go library functions used by the sources\<close>

text \<open>\<open>[]byte(s)\<close> and \<open>string(b)\<close>: a Go string is its bytes.\<close>

definition byte_of_char :: "char \<Rightarrow> byte" where
  "byte_of_char c = of_nat (of_char c)"

definition char_of_byte :: "byte \<Rightarrow> char" where
  "char_of_byte b = char_of (unat b)"

definition bytes_of_string :: "string \<Rightarrow> byte list" where
  "bytes_of_string s = map byte_of_char s"

definition string_of_bytes :: "byte list \<Rightarrow> string" where
  "string_of_bytes bs = map char_of_byte bs"

text \<open>
  \<open>strconv.Atoi\<close>, value only (both callers drop the error). An optional sign, then
  decimal digits read from the left by \<open>ParseUint\<close>; a syntax error gives 0, a range
  error the nearest bound of the 64-bit \<open>int\<close>.
\<close>

definition is_digit :: "char \<Rightarrow> bool" where
  "is_digit c \<longleftrightarrow> (48::nat) \<le> of_char c \<and> (of_char c :: nat) \<le> 57"

definition digit_val :: "char \<Rightarrow> nat" where
  "digit_val c = of_char c - 48"

definition maxUint64 :: nat where
  "maxUint64 = 2 ^ 64 - 1"

datatype uint_parse = UVal nat | USyntax | URange

fun ParseUint_loop :: "nat \<Rightarrow> string \<Rightarrow> uint_parse" where
  "ParseUint_loop n [] = UVal n"
| "ParseUint_loop n (c # cs) =
     (if \<not> is_digit c then USyntax
      else if n \<ge> maxUint64 div 10 + 1 then URange
      else
        (let n1 = n * 10 + digit_val c
         in if n1 > maxUint64 then URange else ParseUint_loop n1 cs))"

definition ParseUint :: "string \<Rightarrow> uint_parse" where
  "ParseUint s = (if s = [] then USyntax else ParseUint_loop 0 s)"

definition Atoi :: "string \<Rightarrow> int" where
  "Atoi s =
     (case s of
        [] \<Rightarrow> 0
      | c # cs \<Rightarrow>
          (let neg = (c = CHR ''-'');
               s1 = (if c = CHR ''+'' \<or> c = CHR ''-'' then cs else s)
           in case ParseUint s1 of
                USyntax \<Rightarrow> 0
              | URange \<Rightarrow> (if neg then - (2 ^ 63) else 2 ^ 63 - 1)
              | UVal un \<Rightarrow>
                  (if \<not> neg \<and> un \<ge> 2 ^ 63 then 2 ^ 63 - 1
                   else if neg \<and> un > 2 ^ 63 then - (2 ^ 63)
                   else if neg then - int un else int un)))"

text \<open>\<open>net.IP.To4\<close> and \<open>net.IP.To16\<close>; the nil slice is the empty list.\<close>

definition v4InV6Prefix :: "byte list" where
  "v4InV6Prefix = [0, 0, 0, 0, 0, 0, 0, 0, 0, 0, 255, 255]"

definition To4 :: "byte list \<Rightarrow> byte list" where
  "To4 ip =
     (if length ip = 4 then ip
      else if length ip = 16 \<and> take 12 ip = v4InV6Prefix then drop 12 ip
      else [])"

definition To16 :: "byte list \<Rightarrow> byte list" where
  "To16 ip =
     (if length ip = 4 then v4InV6Prefix @ ip
      else if length ip = 16 then ip
      else [])"

text \<open>\<open>netip.AddrFromSlice\<close>: defined on slices of 4 or of 16 bytes.\<close>

definition AddrFromSlice :: "byte list \<Rightarrow> byte list option" where
  "AddrFromSlice sl = (if length sl = 4 \<or> length sl = 16 then Some sl else None)"

text \<open>\<open>strings.Split(s, ",")\<close>: one more piece than there are separators.\<close>

fun Split :: "string \<Rightarrow> char \<Rightarrow> string list" where
  "Split [] sep = [[]]"
| "Split (c # cs) sep =
     (if c = sep then [] # Split cs sep
      else (case Split cs sep of [] \<Rightarrow> [[c]] | w # ws \<Rightarrow> (c # w) # ws))"

section \<open>adapters/util.go: the address header\<close>

text \<open>
  \<open>serializesSocksAddr\<close>. \<open>uint8(x)\<close> keeps the low eight bits. For the two IP types the
  source dereferences \<open>addr.IP\<close>, which panics on the nil pointer. An address type other
  than the three of the switch leaves \<open>buf\<close> empty.
\<close>

definition serializesSocksAddr :: "Addr \<Rightarrow> byte list outcome" where
  "serializesSocksAddr addr =
     (let aType = (word_of_int (AddrType addr) :: byte);
          p = Atoi (Port addr);
          port = [word_of_int (drop_bit 8 p), word_of_int (p AND 255)] :: byte list
      in if AddrType addr = AtypDomainName then
           (let len = (of_nat (length (Host addr)) :: byte);
                host = bytes_of_string (Host addr)
            in Returns ([aType, len] @ host @ port))
         else if AddrType addr = AtypIPv4 then
           (case IP addr of
              None \<Rightarrow> Panics
            | Some ip \<Rightarrow> Returns ([aType] @ To4 ip @ port))
         else if AddrType addr = AtypIPv6 then
           (case IP addr of
              None \<Rightarrow> Panics
            | Some ip \<Rightarrow> Returns ([aType] @ To16 ip @ port))
         else Returns [])"

text \<open>
  Modelled from the spec: the reader of the header is not part of the sources. It follows
  the table of section 6.2: the ATYP byte (1 IPv4, 3 domain, 4 IPv6), for a domain one
  length byte, then 4, LEN or 16 address bytes, then the port as a big-endian 16-bit
  number. It returns the destination, the port and the bytes after the header.
\<close>

datatype socks_host = HostIPv4 "byte list" | HostDomain string | HostIPv6 "byte list"

definition decode_port_spec :: "byte list \<Rightarrow> nat" where
  "decode_port_spec bs = unat (bs ! 0) * 256 + unat (bs ! 1)"

definition decode_fixed_spec ::
  "(byte list \<Rightarrow> socks_host) \<Rightarrow> nat \<Rightarrow> byte list \<Rightarrow> (socks_host \<times> nat \<times> byte list) option"
where
  "decode_fixed_spec mk n bs =
     (if length bs < n + 2 then None
      else Some (mk (take n bs), decode_port_spec (take 2 (drop n bs)), drop (n + 2) bs))"

fun decode_socks_addr_spec :: "byte list \<Rightarrow> (socks_host \<times> nat \<times> byte list) option" where
  "decode_socks_addr_spec [] = None"
| "decode_socks_addr_spec (atyp # bs) =
     (if atyp = 1 then decode_fixed_spec HostIPv4 4 bs
      else if atyp = 4 then decode_fixed_spec HostIPv6 16 bs
      else if atyp = 3 then
        (case bs of
           [] \<Rightarrow> None
         | len # rest \<Rightarrow>
             decode_fixed_spec (\<lambda>a. HostDomain (string_of_bytes a)) (unat len) rest)
      else None)"

text \<open>A port string of decimal digits and the number it denotes.\<close>

definition decimal :: "string \<Rightarrow> bool" where
  "decimal s \<longleftrightarrow> s \<noteq> [] \<and> list_all is_digit s"

definition decimal_value :: "string \<Rightarrow> nat" where
  "decimal_value s = foldl (\<lambda>n c. n * 10 + digit_val c) 0 s"

section \<open>Rules\<close>

text \<open>
  \<open>C.Rule\<close> is an interface; a rule is the record of its four methods. \<open>IsMatch\<close> can
  panic. Of the rule types only \<open>C.GEOIP\<close> occurs in the sources; the other four are the
  variants that section 3 of the specification names.
\<close>

datatype RuleType = C_DomainSuffix | C_DomainKeyword | C_GEOIP | C_IPCIDR | C_FINAL

record Rule =
  IsMatch :: "Addr \<Rightarrow> bool outcome"
  Adapter :: string
  RuleType :: RuleType
  Payload :: string

subsection \<open>The GEOIP rule\<close>

text \<open>
  \<open>mmdb.Country\<close> of package geoip2 is a parameter: it returns a pointer to a record
  (\<open>None\<close> is nil) and an error (\<open>None\<close> is nil). Of the record only
  \<open>Country.ISOCode\<close> is read.
\<close>

record geoip2_Country =
  ISOCode :: string

type_synonym mmdb_Reader = "byte list \<Rightarrow> geoip2_Country option \<times> string option"

record GEOIP =
  country :: string
  adapter :: string

definition GEOIP_IsMatch :: "mmdb_Reader \<Rightarrow> GEOIP \<Rightarrow> Addr \<Rightarrow> bool outcome" where
  "GEOIP_IsMatch mmdb g addr =
     (case IP addr of
        None \<Rightarrow> Returns False
      | Some sl \<Rightarrow>
          (case AddrFromSlice sl of
             None \<Rightarrow> Returns False
           | Some ip \<Rightarrow>
               (case fst (mmdb ip) of
                  None \<Rightarrow> Panics
                | Some rec \<Rightarrow> Returns (ISOCode rec = country g))))"

definition NewGEOIP :: "string \<Rightarrow> string \<Rightarrow> GEOIP" where
  "NewGEOIP c a = \<lparr>country = c, adapter = a\<rparr>"

text \<open>A \<open>*GEOIP\<close> seen through the interface \<open>C.Rule\<close>.\<close>

definition GEOIP_Rule :: "mmdb_Reader \<Rightarrow> GEOIP \<Rightarrow> Rule" where
  "GEOIP_Rule mmdb g =
     \<lparr>IsMatch = GEOIP_IsMatch mmdb g, Adapter = adapter g, RuleType = C_GEOIP,
      Payload = country g\<rparr>"

section \<open>Outbound proxies\<close>

text \<open>
  \<open>'c\<close> is \<open>core.Cipher\<close>, \<open>'u\<close> is \<open>*adapters.URLTest\<close> and \<open>'t\<close> is \<open>*C.Traffic\<close>:
  all three are declared outside the sources.
\<close>

record ('c, 't) ShadowSocks =
  server :: string
  name :: string
  cipher :: 'c
  ss_traffic :: 't

datatype ('c, 'u, 't) Proxy =
  ProxyDirect 't
  | ProxyReject
  | ProxyShadowSocks "('c, 't) ShadowSocks"
  | ProxyURLTest 'u

definition NewDirect :: "'t \<Rightarrow> ('c, 'u, 't) Proxy" where
  "NewDirect tr = ProxyDirect tr"

text \<open>
  Modelled from the spec: \<open>NewReject\<close> (adapters/reject.go) is not among the sources;
  section 4.3 describes Reject as a proxy without configuration.
\<close>

definition NewReject :: "('c, 'u, 't) Proxy" where
  "NewReject = ProxyReject"

subsection \<open>ShadowSocks.Generator\<close>

text \<open>
  A connection is the TCP connection that \<open>net.Dial\<close> returned (\<open>'k\<close>, with its
  keep-alive flag), wrapped by the cipher and by the traffic tracker.
\<close>

datatype ('k, 'c, 't) Conn =
  TCPConn 'k bool
  | StreamConn 'c "('k, 'c, 't) Conn"
  | TrafficTrack "('k, 'c, 't) Conn" 't

definition NewTrafficTrack :: "('k, 'c, 't) Conn \<Rightarrow> 't \<Rightarrow> ('k, 'c, 't) Conn" where
  "NewTrafficTrack c tr = TrafficTrack c tr"

record ('k, 'c, 't) ShadowsocksAdapter =
  conn :: "('k, 'c, 't) Conn"

text \<open>
  The network as the call sees it: what \<open>net.Dial("tcp", server)\<close> returns (an error or
  a connection) and what \<open>Write\<close> on a connection returns (a count and an error).
\<close>

record ('k, 'c, 't) network =
  net_Dial :: "string \<Rightarrow> string + 'k"
  conn_Write :: "('k, 'c, 't) Conn \<Rightarrow> byte list \<Rightarrow> nat \<times> string option"

text \<open>The result is the pair (adapter, err) of the source; \<open>None\<close> is nil.\<close>

definition Generator ::
  "('k, 'c, 't) network \<Rightarrow> ('c, 't) ShadowSocks \<Rightarrow> Addr \<Rightarrow>
   (('k, 'c, 't) ShadowsocksAdapter option \<times> string option) outcome" where
  "Generator nw ss addr =
     (case net_Dial nw (server ss) of
        Inl e \<Rightarrow> Returns (None, Some (server ss @ '' connect error''))
      | Inr k \<Rightarrow>
          (let c0 = TCPConn k True;
               c = StreamConn (cipher ss) c0
           in case serializesSocksAddr addr of
                Panics \<Rightarrow> Panics
              | Returns hdr \<Rightarrow>
                  (let (n, err) = conn_Write nw c hdr
                   in Returns (Some \<lparr>conn = NewTrafficTrack c (ss_traffic ss)\<rparr>, err))))"

section \<open>tunnel/tunnel.go\<close>

text \<open>
  Modelled from the spec: \<open>newLog\<close> and the log levels (tunnel/log.go) are not among the
  sources. Section 3 describes a record of the log bus by its level and its message (the
  time stamp comes from the clock and is left out); \<open>newLog\<close> formats the message
  with \<open>fmt.Sprintf\<close>, which is written out at each call.
\<close>

datatype LogLevel = INFO | WARNING

record Log =
  level :: LogLevel
  message :: string

definition newLog :: "LogLevel \<Rightarrow> string \<Rightarrow> Log" where
  "newLog l m = \<lparr>level = l, message = m\<rparr>"

text \<open>
  The configuration snapshot of the tunnel and its traffic meter. The Go map \<open>proxys\<close>
  is a partial function; a lookup of a missing key gives nil (\<open>None\<close>).
\<close>

record ('c, 'u, 't) Tunnel =
  rules :: "Rule list"
  proxys :: "string \<rightharpoonup> ('c, 'u, 't) Proxy"
  traffic :: 't

text \<open>
  \<open>Tunnel.match\<close>. \<open>astr\<close> is \<open>addr.String()\<close> and \<open>rtstr\<close> is \<open>RuleType.String()\<close>,
  both declared outside the sources. The result is the proxy returned (\<open>None\<close> is the nil
  that a missing "DIRECT" gives) and the records sent to \<open>logCh\<close>, in order.
\<close>

fun match_rules ::
  "(Addr \<Rightarrow> string) \<Rightarrow> (RuleType \<Rightarrow> string) \<Rightarrow> (string \<rightharpoonup> ('c, 'u, 't) Proxy) \<Rightarrow>
   Addr \<Rightarrow> Rule list \<Rightarrow> (('c, 'u, 't) Proxy option \<times> Log list) outcome" where
  "match_rules astr rtstr ps addr [] =
     Returns (ps ''DIRECT'',
       [newLog INFO (astr addr @ '' doesn't match any rule using DIRECT'')])"
| "match_rules astr rtstr ps addr (rule # rest) =
     (case IsMatch rule addr of
        Panics \<Rightarrow> Panics
      | Returns False \<Rightarrow> match_rules astr rtstr ps addr rest
      | Returns True \<Rightarrow>
          (case ps (Adapter rule) of
             None \<Rightarrow> match_rules astr rtstr ps addr rest
           | Some a \<Rightarrow>
               Returns (Some a,
                 [newLog INFO (astr addr @ '' match '' @ rtstr (RuleType rule) @ '' using ''
                    @ Adapter rule)])))"

definition Tunnel_match ::
  "(Addr \<Rightarrow> string) \<Rightarrow> (RuleType \<Rightarrow> string) \<Rightarrow> ('c, 'u, 't) Tunnel \<Rightarrow> Addr \<Rightarrow>
   (('c, 'u, 't) Proxy option \<times> Log list) outcome" where
  "Tunnel_match astr rtstr t addr = match_rules astr rtstr (proxys t) addr (rules t)"

text \<open>A rule that the traversal passes over: no match, or a match with an unknown adapter.\<close>

definition passed_over :: "(string \<rightharpoonup> ('c, 'u, 't) Proxy) \<Rightarrow> Addr \<Rightarrow> Rule \<Rightarrow> bool" where
  "passed_over ps addr rule \<longleftrightarrow>
     IsMatch rule addr = Returns False \<or>
     (IsMatch rule addr = Returns True \<and> ps (Adapter rule) = None)"

text \<open>The records that a call of \<open>match\<close> has sent to \<open>logCh\<close>.\<close>

definition emitted :: "('a \<times> Log list) outcome \<Rightarrow> Log list" where
  "emitted r = (case r of Returns (p, lg) \<Rightarrow> lg | Panics \<Rightarrow> [])"

subsection \<open>UpdateConfig\<close>

text \<open>
  A key of an INI section has a name and a value; a file gives the keys of each section in
  their order (an absent section has none). What \<open>UpdateConfig\<close> calls outside the
  sources is collected in \<open>deps\<close>: the result of \<open>C.GetConfig()\<close>, \<open>trimArr\<close>,
  \<open>url.Parse\<close>, \<open>core.PickCipher\<close>, \<open>adapters.NewURLTest\<close>, the constructors of the
  rules other than GEOIP, and the MMDB reader.
\<close>

record Key =
  Name :: string
  Value :: string

type_synonym ini_File = "string \<Rightarrow> Key list"

record Userinfo =
  Username :: string
  Password :: string

record URL =
  url_Host :: string
  url_User :: "Userinfo option"

record ('c, 'u, 't) deps =
  GetConfig :: "string + ini_File"
  trimArr :: "string list \<Rightarrow> string list"
  url_Parse :: "string \<Rightarrow> string + URL"
  PickCipher :: "string \<Rightarrow> byte list \<Rightarrow> string \<Rightarrow> string + 'c"
  NewURLTest :: "string \<Rightarrow> ('c, 'u, 't) Proxy list \<Rightarrow> string \<Rightarrow> int \<Rightarrow> string + 'u"
  NewDomainSuffix :: "string \<Rightarrow> string \<Rightarrow> Rule"
  NewDomainKeyword :: "string \<Rightarrow> string \<Rightarrow> Rule"
  NewIPCIDR :: "string \<Rightarrow> string \<Rightarrow> Rule"
  NewFinal :: "string \<Rightarrow> Rule"
  mmdb :: mmdb_Reader

text \<open>\<open>parseURL\<close> (adapters/util.go): server address, cipher and password.\<close>

definition parseURL ::
  "(string \<Rightarrow> string + URL) \<Rightarrow> string \<Rightarrow> string \<times> string \<times> string \<times> string option" where
  "parseURL parse s =
     (case parse s of
        Inl err \<Rightarrow> ([], [], [], Some err)
      | Inr u \<Rightarrow>
          (case url_User u of
             None \<Rightarrow> (url_Host u, [], [], None)
           | Some ui \<Rightarrow> (url_Host u, Username ui, Password ui, None)))"

text \<open>\<open>NewShadowSocks\<close> (adapters/util.go); the key given to \<open>PickCipher\<close> is nil.\<close>

definition NewShadowSocks ::
  "('c, 'u, 't) deps \<Rightarrow> string \<Rightarrow> string \<Rightarrow> 't \<Rightarrow> string + ('c, 't) ShadowSocks" where
  "NewShadowSocks d nm ssURL tr =
     (let (srv, ciphname, password, _) = parseURL (url_Parse d) ssURL
      in case PickCipher d ciphname [] password of
           Inl err \<Rightarrow> Inl (''ss '' @ srv @ '' initialize error: '' @ err)
         | Inr ciph \<Rightarrow> Inr \<lparr>server = srv, name = nm, cipher = ciph, ss_traffic = tr\<rparr>)"

text \<open>
  The loop over the keys of section Proxy. The result of \<open>trimArr\<close> is indexed without a
  new test of its length: \<open>proxy[0]\<close> panics on an empty slice. An entry of a kind other
  than ss, and an ss entry with fewer than five fields, is passed over.
\<close>

fun proxys_loop ::
  "('c, 'u, 't) deps \<Rightarrow> 't \<Rightarrow> Key list \<Rightarrow> (string \<rightharpoonup> ('c, 'u, 't) Proxy) \<Rightarrow>
   (string + (string \<rightharpoonup> ('c, 'u, 't) Proxy)) outcome" where
  "proxys_loop d tr [] ps = Returns (Inr ps)"
| "proxys_loop d tr (key # keys) ps =
     (let proxy0 = Split (Value key) CHR '',''
      in if length proxy0 = 0 then proxys_loop d tr keys ps
         else
           (let proxy = trimArr d proxy0
            in case proxy of
                 [] \<Rightarrow> Panics
               | kind # _ \<Rightarrow>
                   if kind = ''ss'' then
                     (if length proxy < 5 then proxys_loop d tr keys ps
                      else
                        (let ssURL = ''ss://'' @ proxy ! 3 @ '':'' @ proxy ! 4 @ ''@''
                                       @ proxy ! 1 @ '':'' @ proxy ! 2
                         in case NewShadowSocks d (Name key) ssURL tr of
                              Inl err \<Rightarrow> Returns (Inl err)
                            | Inr ss \<Rightarrow>
                                proxys_loop d tr keys (ps(Name key \<mapsto> ProxyShadowSocks ss))))
                   else proxys_loop d tr keys ps))"

text \<open>
  The branches of the loop body: the trimmed fields of an entry, an ss entry that reaches
  \<open>NewShadowSocks\<close> with the URL made of its fields, and an entry that the loop passes
  over.
\<close>

definition entry_fields :: "('c, 'u, 't) deps \<Rightarrow> Key \<Rightarrow> string list" where
  "entry_fields d key = trimArr d (Split (Value key) CHR '','')"

definition ss_entry :: "('c, 'u, 't) deps \<Rightarrow> Key \<Rightarrow> bool" where
  "ss_entry d key \<longleftrightarrow>
     (case entry_fields d key of
        [] \<Rightarrow> False
      | kind # _ \<Rightarrow> kind = ''ss'' \<and> \<not> length (entry_fields d key) < 5)"

definition ss_url :: "('c, 'u, 't) deps \<Rightarrow> Key \<Rightarrow> string" where
  "ss_url d key =
     (let proxy = entry_fields d key
      in ''ss://'' @ proxy ! 3 @ '':'' @ proxy ! 4 @ ''@'' @ proxy ! 1 @ '':'' @ proxy ! 2)"

definition passed_entry :: "('c, 'u, 't) deps \<Rightarrow> Key \<Rightarrow> bool" where
  "passed_entry d key \<longleftrightarrow>
     (case entry_fields d key of
        [] \<Rightarrow> False
      | kind # _ \<Rightarrow> kind \<noteq> ''ss'' \<or> length (entry_fields d key) < 5)"

text \<open>
  The loop over the keys of section Rule. The length is tested before \<open>trimArr\<close>, the
  indices are used after it: \<open>rule[0]\<close>, \<open>rule[1]\<close> and \<open>rule[2]\<close> panic when the
  trimmed slice is too short.
\<close>

definition make_rule :: "('c, 'u, 't) deps \<Rightarrow> string list \<Rightarrow> Rule option outcome" where
  "make_rule d rule =
     (case rule of
        [] \<Rightarrow> Panics
      | kind # _ \<Rightarrow>
          if kind = ''DOMAIN-SUFFIX'' then
            (if length rule < 3 then Panics
             else Returns (Some (NewDomainSuffix d (rule ! 1) (rule ! 2))))
          else if kind = ''DOMAIN-KEYWORD'' then
            (if length rule < 3 then Panics
             else Returns (Some (NewDomainKeyword d (rule ! 1) (rule ! 2))))
          else if kind = ''GEOIP'' then
            (if length rule < 3 then Panics
             else Returns (Some (GEOIP_Rule (mmdb d) (NewGEOIP (rule ! 1) (rule ! 2)))))
          else if kind = ''IP-CIDR'' \<or> kind = ''IP-CIDR6'' then
            (if length rule < 3 then Panics
             else Returns (Some (NewIPCIDR d (rule ! 1) (rule ! 2))))
          else if kind = ''FINAL'' then
            (if length rule < 3 then Panics
             else Returns (Some (NewFinal d (rule ! 2))))
          else Returns None)"

fun rules_loop :: "('c, 'u, 't) deps \<Rightarrow> Key list \<Rightarrow> Rule list \<Rightarrow> Rule list outcome" where
  "rules_loop d [] rs = Returns rs"
| "rules_loop d (key # keys) rs =
     (let rule0 = Split (Name key) CHR '',''
      in if length rule0 < 3 then rules_loop d keys rs
         else
           (case make_rule d (trimArr d rule0) of
              Panics \<Rightarrow> Panics
            | Returns None \<Rightarrow> rules_loop d keys rs
            | Returns (Some r) \<Rightarrow> rules_loop d keys (rs @ [r])))"

text \<open>
  The loop over the keys of section Proxy Group. \<open>rule[1 : len(rule)-2]\<close> panics when
  the trimmed slice has fewer than three elements. \<open>time.Duration(delay) * time.Second\<close>
  is a product of 64-bit integers.
\<close>

definition Second :: int where
  "Second = 1000000000"

definition Duration_mul :: "int \<Rightarrow> int \<Rightarrow> int" where
  "Duration_mul a b = signed_take_bit 63 (a * b)"

fun groups_loop ::
  "('c, 'u, 't) deps \<Rightarrow> Key list \<Rightarrow> (string \<rightharpoonup> ('c, 'u, 't) Proxy) \<Rightarrow>
   (string + (string \<rightharpoonup> ('c, 'u, 't) Proxy)) outcome" where
  "groups_loop d [] ps = Returns (Inr ps)"
| "groups_loop d (key # keys) ps =
     (let rule0 = Split (Value key) CHR '',''
      in if length rule0 < 4 then groups_loop d keys ps
         else
           (let rule = trimArr d rule0
            in case rule of
                 [] \<Rightarrow> Panics
               | kind # _ \<Rightarrow>
                   if kind = ''url-test'' then
                     (if length rule < 3 then Panics
                      else
                        (let proxyNames = take (length rule - 2 - 1) (drop 1 rule);
                             delay = Atoi (rule ! (length rule - 1));
                             url = rule ! (length rule - 2);
                             pl = List.map_filter ps proxyNames
                         in case NewURLTest d (Name key) pl url (Duration_mul delay Second) of
                              Inl err \<Rightarrow> Returns (Inl (''Config error: '' @ err))
                            | Inr a \<Rightarrow>
                                groups_loop d keys (ps(Name key \<mapsto> ProxyURLTest a))))
                   else groups_loop d keys ps))"

text \<open>
  \<open>Tunnel.UpdateConfig\<close>. The result is the error returned (\<open>Returns None\<close> is nil), the
  tunnel afterwards, and the URL tests on which \<open>Close\<close> was called.
\<close>

definition UpdateConfig ::
  "('c, 'u, 't) deps \<Rightarrow> ('c, 'u, 't) Tunnel \<Rightarrow>
   string option outcome \<times> ('c, 'u, 't) Tunnel \<times> 'u set" where
  "UpdateConfig d t =
     (case GetConfig d of
        Inl err \<Rightarrow> (Returns (Some err), t, {})
      | Inr cfg \<Rightarrow>
          (case proxys_loop d (traffic t) (cfg ''Proxy'') Map.empty of
             Panics \<Rightarrow> (Panics, t, {})
           | Returns (Inl err) \<Rightarrow> (Returns (Some err), t, {})
           | Returns (Inr ps1) \<Rightarrow>
               (case rules_loop d (cfg ''Rule'') [] of
                  Panics \<Rightarrow> (Panics, t, {})
                | Returns rs \<Rightarrow>
                    (case groups_loop d (cfg ''Proxy Group'') ps1 of
                       Panics \<Rightarrow> (Panics, t, {})
                     | Returns (Inl err) \<Rightarrow> (Returns (Some err), t, {})
                     | Returns (Inr ps2) \<Rightarrow>
                         (let ps3 = ps2(''DIRECT'' \<mapsto> NewDirect (traffic t));
                              ps4 = ps3(''REJECT'' \<mapsto> NewReject)
                          in (Returns None,
                              t\<lparr>proxys := ps4, rules := rs\<rparr>,
                              {u. ProxyURLTest u \<in> ran (proxys t)}))))))"

section \<open>Concrete inputs\<close>

text \<open>
  Modelled from the spec: \<open>Addr.String\<close>, \<open>RuleType.String\<close> and the rule Final are not
  among the sources. Section 3 gives the string form of an address as host:port, section
  8 shows the rule type in a log line as IPCIDR, and section 4.2 says that Final matches
  unconditionally. They serve as arguments at which the theorems are evaluated.
\<close>

definition Addr_String_spec :: "Addr \<Rightarrow> string" where
  "Addr_String_spec addr = Host addr @ '':'' @ Port addr"

fun RuleType_String_spec :: "RuleType \<Rightarrow> string" where
  "RuleType_String_spec C_DomainSuffix = ''DomainSuffix''"
| "RuleType_String_spec C_DomainKeyword = ''DomainKeyword''"
| "RuleType_String_spec C_GEOIP = ''GEOIP''"
| "RuleType_String_spec C_IPCIDR = ''IPCIDR''"
| "RuleType_String_spec C_FINAL = ''FINAL''"

definition Final_IsMatch_spec :: "Addr \<Rightarrow> bool outcome" where
  "Final_IsMatch_spec addr = Returns True"

definition NewFinal_spec :: "string \<Rightarrow> Rule" where
  "NewFinal_spec a =
     \<lparr>IsMatch = Final_IsMatch_spec, Adapter = a, RuleType = C_FINAL, Payload = []\<rparr>"

definition addr_domain :: Addr where
  "addr_domain =
     \<lparr>NetWork = TCP, AddrType = AtypDomainName, Host = ''example.com'', IP = None,
      Port = ''443''\<rparr>"

definition addr_ipv4 :: Addr where
  "addr_ipv4 =
     \<lparr>NetWork = TCP, AddrType = AtypIPv4, Host = ''127.0.0.1'', IP = Some [127, 0, 0, 1],
      Port = ''19999''\<rparr>"

definition addr_ipv6 :: Addr where
  "addr_ipv6 =
     \<lparr>NetWork = TCP, AddrType = AtypIPv6, Host = ''::1'',
      IP = Some [0, 0, 0, 0, 0, 0, 0, 0, 0, 0, 0, 0, 0, 0, 0, 1], Port = ''80''\<rparr>"

text \<open>An observable after two calls of \<open>Subscribe\<close>.\<close>

definition observable_two :: Observable where
  "observable_two = snd (Subscribe (snd (Subscribe NewObservable)))"

text \<open>A tunnel whose first rule names an adapter that the proxy map does not have.\<close>

definition tunnel_unknown_adapter :: "(string, string, unit) Tunnel" where
  "tunnel_unknown_adapter =
     \<lparr>rules = [NewFinal_spec ''NONEXISTENT'', NewFinal_spec ''REJECT'', NewFinal_spec ''DIRECT''],
      proxys = [''DIRECT'' \<mapsto> ProxyDirect (), ''REJECT'' \<mapsto> ProxyReject],
      traffic = ()\<rparr>"

definition tunnel_no_hit :: "(string, string, unit) Tunnel" where
  "tunnel_no_hit =
     \<lparr>rules = [NewFinal_spec ''NONEXISTENT''],
      proxys = [''DIRECT'' \<mapsto> ProxyDirect (), ''REJECT'' \<mapsto> ProxyReject],
      traffic = ()\<rparr>"

text \<open>
  MMDB readers: one that knows the loopback address, one whose lookup fails with an
  empty record, one whose lookup fails with a nil record.
\<close>

definition mmdb_example :: mmdb_Reader where
  "mmdb_example ip =
     (if ip = [127, 0, 0, 1] then (Some \<lparr>ISOCode = ''CN''\<rparr>, None)
      else (Some \<lparr>ISOCode = []\<rparr>, None))"

definition mmdb_failing :: mmdb_Reader where
  "mmdb_failing ip = (Some \<lparr>ISOCode = []\<rparr>, Some ''lookup failed'')"

definition mmdb_failing_nil :: mmdb_Reader where
  "mmdb_failing_nil ip = (None, Some ''invalid method'')"

text \<open>A network where the dial succeeds and the write of the header fails.\<close>

definition dial_ok :: "string \<Rightarrow> string + nat" where
  "dial_ok srv = Inr 7"

definition write_fails :: "(nat, string, unit) Conn \<Rightarrow> byte list \<Rightarrow> nat \<times> string option" where
  "write_fails c bs = (0, Some ''broken pipe'')"

definition network_write_fails :: "(nat, string, unit) network" where
  "network_write_fails = \<lparr>net_Dial = dial_ok, conn_Write = write_fails\<rparr>"

definition ss_example :: "(string, unit) ShadowSocks" where
  "ss_example =
     \<lparr>server = ''1.2.3.4:8388'', name = ''ss1'', cipher = ''aes-256-cfb'', ss_traffic = ()\<rparr>"

text \<open>
  Dependencies for \<open>UpdateConfig\<close>: a \<open>trimArr\<close> that trims blanks, a parser for URLs of
  the form ss://method:password@host:port, and a cipher table with one entry.
\<close>

definition trim_blanks :: "string \<Rightarrow> string" where
  "trim_blanks s = rev (dropWhile ((=) CHR '' '') (rev (dropWhile ((=) CHR '' '') s)))"

definition trimArr_example :: "string list \<Rightarrow> string list" where
  "trimArr_example arr = map trim_blanks arr"

definition url_Parse_example :: "string \<Rightarrow> string + URL" where
  "url_Parse_example s =
     (case Split (drop 5 s) CHR ''@'' of
        [ui, host] \<Rightarrow>
          (case Split ui CHR '':'' of
             [u, p] \<Rightarrow> Inr \<lparr>url_Host = host, url_User = Some \<lparr>Username = u, Password = p\<rparr>\<rparr>
           | _ \<Rightarrow> Inl ''invalid userinfo'')
      | _ \<Rightarrow> Inl ''invalid URL'')"

definition PickCipher_example :: "string \<Rightarrow> byte list \<Rightarrow> string \<Rightarrow> string + string" where
  "PickCipher_example ciph key password =
     (if ciph = ''aes-256-cfb'' then Inr ciph else Inl ''cipher not supported'')"

definition NewURLTest_example ::
  "string \<Rightarrow> (string, string, unit) Proxy list \<Rightarrow> string \<Rightarrow> int \<Rightarrow> string + string" where
  "NewURLTest_example nm ps url delay = Inr nm"

definition NewRule_example :: "RuleType \<Rightarrow> string \<Rightarrow> string \<Rightarrow> Rule" where
  "NewRule_example rt payload a =
     \<lparr>IsMatch = Final_IsMatch_spec, Adapter = a, RuleType = rt, Payload = payload\<rparr>"

text \<open>
  A configuration whose section Proxy has a complete ss entry named DIRECT and an ss entry
  with two fields only, whose rules are a GEOIP rule and a final rule with an unknown
  adapter, and which has one url-test group.
\<close>

definition cfg_example :: ini_File where
  "cfg_example sec =
     (if sec = ''Proxy'' then
        [\<lparr>Name = ''DIRECT'', Value = ''ss, 1.2.3.4, 8388, aes-256-cfb, secret''\<rparr>,
         \<lparr>Name = ''short'', Value = ''ss, 1.2.3.4''\<rparr>]
      else if sec = ''Rule'' then
        [\<lparr>Name = ''GEOIP,CN,REJECT'', Value = []\<rparr>,
         \<lparr>Name = ''FINAL,,NOWHERE'', Value = []\<rparr>]
      else if sec = ''Proxy Group'' then
        [\<lparr>Name = ''auto'', Value = ''url-test, DIRECT, http://probe/, 300''\<rparr>]
      else [])"

text \<open>A configuration whose only entry of section Proxy has two fields.\<close>

definition cfg_short_entry :: ini_File where
  "cfg_short_entry sec =
     (if sec = ''Proxy'' then [\<lparr>Name = ''short'', Value = ''ss, 1.2.3.4''\<rparr>] else [])"

text \<open>A configuration whose ss entry names a cipher that the table does not have.\<close>

definition cfg_bad_cipher :: ini_File where
  "cfg_bad_cipher sec =
     (if sec = ''Proxy'' then
        [\<lparr>Name = ''ss1'', Value = ''ss, 1.2.3.4, 8388, rot13, secret''\<rparr>]
      else [])"

definition deps_example :: "ini_File \<Rightarrow> (string, string, unit) deps" where
  "deps_example cfg =
     \<lparr>GetConfig = Inr cfg, trimArr = trimArr_example, url_Parse = url_Parse_example,
      PickCipher = PickCipher_example, NewURLTest = NewURLTest_example,
      NewDomainSuffix = NewRule_example C_DomainSuffix,
      NewDomainKeyword = NewRule_example C_DomainKeyword,
      NewIPCIDR = NewRule_example C_IPCIDR,
      NewFinal = NewFinal_spec,
      mmdb = mmdb_example\<rparr>"

definition tunnel_empty :: "(string, string, unit) Tunnel" where
  "tunnel_empty = \<lparr>rules = [], proxys = Map.empty, traffic = ()\<rparr>"

text \<open>The snapshot that \<open>UpdateConfig\<close> builds from \<open>cfg_example\<close>.\<close>

definition tunnel_installed :: "(string, string, unit) Tunnel" where
  "tunnel_installed =
     \<lparr>rules = [GEOIP_Rule mmdb_example (NewGEOIP ''CN'' ''REJECT''), NewFinal_spec ''NOWHERE''],
      proxys =
        [''DIRECT'' \<mapsto> ProxyShadowSocks
           \<lparr>server = ''1.2.3.4:8388'', name = ''DIRECT'', cipher = ''aes-256-cfb'',
            ss_traffic = ()\<rparr>,
         ''auto'' \<mapsto> ProxyURLTest ''auto'',
         ''DIRECT'' \<mapsto> ProxyDirect (),
         ''REJECT'' \<mapsto> ProxyReject],
      traffic = ()\<rparr>"

section \<open>Properties of the observable\<close>

lemma listener_ok_NewObservable: "listener_ok NewObservable"
  by (simp add: listener_ok_def NewObservable_def)

lemma listener_ok_Subscribe:
  assumes "listener_ok ob"
  shows "listener_ok (snd (Subscribe ob))"
  using assms
  by (auto simp: listener_ok_def Subscribe_def newSubscriber_def Out_def less_Suc_eq
      split: if_splits)

lemma listener_ok_UnSubscribe:
  assumes "listener_ok ob"
  shows "listener_ok (UnSubscribe sub ob)"
  using assms
  by (auto simp: listener_ok_def UnSubscribe_def Subscriber_Close_def Out_def Let_def
      split: option.splits if_splits)

lemma listener_ok_observable_two: "listener_ok observable_two"
  unfolding observable_two_def
  by (intro listener_ok_Subscribe listener_ok_NewObservable)

lemma observable_two_eq:
  "observable_two =
     \<lparr>listener = [0 \<mapsto> \<lparr>buffer = 0\<rparr>, Suc 0 \<mapsto> \<lparr>buffer = Suc 0\<rparr>], is_done = False,
      next_chan = 2, closed = {}, printed = []\<rparr>"
  by (simp add: observable_two_def Subscribe_def newSubscriber_def Out_def NewObservable_def
      numeral_2_eq_2)

lemma Subscribe_done:
  assumes "is_done ob"
  shows "Subscribe ob = ((None, Some ''Observable is closed''), ob)"
  using assms by (simp add: Subscribe_def)

text \<open>
  C8. When the observable is done, \<open>Subscribe\<close> returns the error "Observable is closed"
  and leaves the state as it is, so no subscriber is registered; this is the case after
  \<open>close\<close>. When it is not done, \<open>Subscribe\<close> returns a subscription that was not in the
  listener map, with a nil error, and the listener map afterwards is the old one with that
  one key added, so it has exactly one subscriber more.
\<close>

theorem Subscribe_closed_or_fresh:
  assumes "listener_ok ob"
  shows "(is_done ob \<longrightarrow> Subscribe ob = ((None, Some ''Observable is closed''), ob)) \<and>
         Subscribe (Observable_close ob)
           = ((None, Some ''Observable is closed''), Observable_close ob) \<and>
         (\<not> is_done ob \<longrightarrow>
            (\<exists>sub ob'. Subscribe ob = ((Some sub, None), ob') \<and>
               sub \<notin> dom (listener ob) \<and>
               listener ob' = (listener ob)(sub \<mapsto> \<lparr>buffer = sub\<rparr>) \<and>
               card (dom (listener ob')) = Suc (card (dom (listener ob))) \<and>
               is_done ob' = is_done ob \<and> closed ob' = closed ob))"
proof (intro conjI impI)
  assume "is_done ob"
  then show "Subscribe ob = ((None, Some ''Observable is closed''), ob)"
    by (rule Subscribe_done)
next
  show "Subscribe (Observable_close ob)
           = ((None, Some ''Observable is closed''), Observable_close ob)"
    by (rule Subscribe_done) (simp add: Observable_close_def)
next
  assume nd: "\<not> is_done ob"
  let ?sub = "next_chan ob"
  let ?ob' = "snd (Subscribe ob)"
  have fresh: "?sub \<notin> dom (listener ob)"
    using assms by (auto simp: listener_ok_def)
  have eq: "Subscribe ob = ((Some ?sub, None), ?ob')"
    using nd by (simp add: Subscribe_def newSubscriber_def Out_def)
  have lst: "listener ?ob' = (listener ob)(?sub \<mapsto> \<lparr>buffer = ?sub\<rparr>)"
    using nd by (simp add: Subscribe_def newSubscriber_def Out_def)
  have fin: "finite (dom (listener ob))"
    using assms by (simp add: listener_ok_def)
  have card: "card (dom (listener ?ob')) = Suc (card (dom (listener ob)))"
    using fresh fin by (simp add: lst)
  have rest: "is_done ?ob' = is_done ob \<and> closed ?ob' = closed ob"
    using nd by (simp add: Subscribe_def newSubscriber_def Out_def)
  show "\<exists>sub ob'. Subscribe ob = ((Some sub, None), ob') \<and>
               sub \<notin> dom (listener ob) \<and>
               listener ob' = (listener ob)(sub \<mapsto> \<lparr>buffer = sub\<rparr>) \<and>
               card (dom (listener ob')) = Suc (card (dom (listener ob))) \<and>
               is_done ob' = is_done ob \<and> closed ob' = closed ob"
    using eq fresh lst card rest by blast
qed

theorem Subscribe_closed_or_fresh_witness:
  "listener_ok NewObservable \<and> \<not> is_done NewObservable \<and>
   fst (Subscribe NewObservable) = (Some 0, None) \<and>
   listener (snd (Subscribe NewObservable)) = [0 \<mapsto> \<lparr>buffer = 0\<rparr>] \<and>
   card (dom (listener (snd (Subscribe NewObservable)))) = Suc (card (dom (listener NewObservable))) \<and>
   listener_ok observable_two \<and> is_done (Observable_close observable_two) \<and>
   fst (Subscribe (Observable_close observable_two)) = (None, Some ''Observable is closed'') \<and>
   listener (snd (Subscribe (Observable_close observable_two))) = listener observable_two"
proof -
  have n: "\<not> is_done NewObservable"
    by (simp add: NewObservable_def)
  have s: "Subscribe NewObservable
      = ((Some 0, None), NewObservable\<lparr>next_chan := Suc 0, listener := [0 \<mapsto> \<lparr>buffer = 0\<rparr>]\<rparr>)"
    by (simp add: Subscribe_def newSubscriber_def Out_def NewObservable_def)
  have c: "card (dom (listener (snd (Subscribe NewObservable))))
      = Suc (card (dom (listener NewObservable)))"
    using s by (simp add: NewObservable_def)
  have d: "is_done (Observable_close observable_two)"
    by (simp add: Observable_close_def)
  have e: "Subscribe (Observable_close observable_two)
      = ((None, Some ''Observable is closed''), Observable_close observable_two)"
    using Subscribe_closed_or_fresh [OF listener_ok_observable_two] by blast
  have f: "listener (Observable_close observable_two) = listener observable_two"
    by (simp add: Observable_close_def)
  show ?thesis
    using listener_ok_NewObservable listener_ok_observable_two n s c d e f by simp
qed

text \<open>
  C10. \<open>UnSubscribe\<close> with a subscription that is not a key of the listener map leaves the
  map and the set of closed channels as they are. With a registered subscription it removes
  that key and no other, and closes the channel of that subscriber and no other.
\<close>

theorem UnSubscribe_frame:
  assumes "listener_ok ob"
  shows "(listener ob sub = None \<longrightarrow>
            listener (UnSubscribe sub ob) = listener ob \<and>
            closed (UnSubscribe sub ob) = closed ob) \<and>
         (\<forall>s. listener ob sub = Some s \<longrightarrow>
            Out s = sub \<and>
            listener (UnSubscribe sub ob) = (listener ob)(sub := None) \<and>
            closed (UnSubscribe sub ob) = insert sub (closed ob))"
  using assms
  by (auto simp: listener_ok_def UnSubscribe_def Subscriber_Close_def Out_def Let_def)

theorem UnSubscribe_frame_witness:
  "listener_ok observable_two \<and>
   listener observable_two 0 = Some \<lparr>buffer = 0\<rparr> \<and>
   listener (UnSubscribe 0 observable_two) = [Suc 0 \<mapsto> \<lparr>buffer = Suc 0\<rparr>] \<and>
   closed (UnSubscribe 0 observable_two) = {0} \<and>
   listener observable_two 5 = None \<and>
   listener (UnSubscribe 5 observable_two) = listener observable_two \<and>
   closed (UnSubscribe 5 observable_two) = {}"
proof -
  have l0: "listener observable_two 0 = Some \<lparr>buffer = 0\<rparr>"
    and l5: "listener observable_two 5 = None"
    and cl: "closed observable_two = {}"
    by (simp_all add: observable_two_eq)
  have upd: "(listener observable_two)(0 := None) = [Suc 0 \<mapsto> \<lparr>buffer = Suc 0\<rparr>]"
    by (auto simp: observable_two_eq)
  show ?thesis
    using UnSubscribe_frame [OF listener_ok_observable_two, of 0]
      UnSubscribe_frame [OF listener_ok_observable_two, of 5]
      l0 l5 cl upd listener_ok_observable_two
    by simp
qed

section \<open>Properties of match\<close>

lemma match_rules_passed_over:
  assumes "\<forall>q \<in> set pre. passed_over ps addr q"
  shows "match_rules astr rtstr ps addr (pre @ rest) = match_rules astr rtstr ps addr rest"
  using assms
  by (induction pre) (auto simp: passed_over_def)

lemma match_rules_hit:
  assumes "IsMatch rule addr = Returns True" and "ps (Adapter rule) = Some a"
  shows "match_rules astr rtstr ps addr (rule # post) =
     Returns (Some a, [newLog INFO (astr addr @ '' match '' @ rtstr (RuleType rule)
        @ '' using '' @ Adapter rule)])"
  using assms by simp

lemma match_rules_no_hit:
  assumes "\<forall>q \<in> set rs. passed_over ps addr q"
  shows "match_rules astr rtstr ps addr rs =
     Returns (ps ''DIRECT'',
       [newLog INFO (astr addr @ '' doesn't match any rule using DIRECT'')])"
  using match_rules_passed_over [OF assms, of astr rtstr "[]"] by simp

text \<open>
  C1. When the rules before a rule are all passed over (their predicate returns false, or
  returns true while their adapter is not in the proxy map), and that rule's predicate
  returns true and its adapter is in the proxy map, \<open>match\<close> returns the proxy bound to
  that adapter and logs the match; the rules after it have no influence on the result.
\<close>

theorem match_first_resolvable_rule:
  assumes "rules t = pre @ rule # post"
    and "\<forall>q \<in> set pre. passed_over (proxys t) addr q"
    and "IsMatch rule addr = Returns True"
    and "proxys t (Adapter rule) = Some a"
  shows "Tunnel_match astr rtstr t addr =
           Returns (Some a, [newLog INFO (astr addr @ '' match '' @ rtstr (RuleType rule)
              @ '' using '' @ Adapter rule)]) \<and>
         (\<forall>post'. Tunnel_match astr rtstr (t\<lparr>rules := pre @ rule # post'\<rparr>) addr
            = Tunnel_match astr rtstr t addr)"
  using assms
  by (simp add: Tunnel_match_def match_rules_passed_over match_rules_hit)

lemma passed_over_NONEXISTENT:
  "passed_over (proxys tunnel_unknown_adapter) addr_domain (NewFinal_spec ''NONEXISTENT'')"
  by (simp add: passed_over_def tunnel_unknown_adapter_def NewFinal_spec_def
      Final_IsMatch_spec_def)

theorem match_first_resolvable_rule_witness:
  "rules tunnel_unknown_adapter
     = [NewFinal_spec ''NONEXISTENT''] @ NewFinal_spec ''REJECT'' # [NewFinal_spec ''DIRECT''] \<and>
   passed_over (proxys tunnel_unknown_adapter) addr_domain (NewFinal_spec ''NONEXISTENT'') \<and>
   IsMatch (NewFinal_spec ''REJECT'') addr_domain = Returns True \<and>
   proxys tunnel_unknown_adapter (Adapter (NewFinal_spec ''REJECT'')) = Some ProxyReject \<and>
   Tunnel_match Addr_String_spec RuleType_String_spec tunnel_unknown_adapter addr_domain
     = Returns (Some ProxyReject,
         [newLog INFO ''example.com:443 match FINAL using REJECT''])"
proof -
  have r: "rules tunnel_unknown_adapter
     = [NewFinal_spec ''NONEXISTENT''] @ NewFinal_spec ''REJECT'' # [NewFinal_spec ''DIRECT'']"
    by (simp add: tunnel_unknown_adapter_def)
  have p: "\<forall>q \<in> set [NewFinal_spec ''NONEXISTENT''].
      passed_over (proxys tunnel_unknown_adapter) addr_domain q"
    using passed_over_NONEXISTENT by simp
  have m: "IsMatch (NewFinal_spec ''REJECT'') addr_domain = Returns True"
    by (simp add: NewFinal_spec_def Final_IsMatch_spec_def)
  have a: "proxys tunnel_unknown_adapter (Adapter (NewFinal_spec ''REJECT'')) = Some ProxyReject"
    by (simp add: tunnel_unknown_adapter_def NewFinal_spec_def)
  show ?thesis
    using match_first_resolvable_rule [OF r p m a, of Addr_String_spec RuleType_String_spec]
      r passed_over_NONEXISTENT m a
    by (simp add: Addr_String_spec_def addr_domain_def NewFinal_spec_def)
qed

text \<open>
  C2. When every rule of the snapshot is passed over, \<open>match\<close> returns what the proxy map
  holds under "DIRECT" and sends one record, of level INFO, whose message contains
  "doesn't match any rule using DIRECT".
\<close>

theorem match_falls_back_to_DIRECT:
  assumes "\<forall>q \<in> set (rules t). passed_over (proxys t) addr q"
  shows "\<exists>lg. Tunnel_match astr rtstr t addr = Returns (proxys t ''DIRECT'', [lg]) \<and>
           level lg = INFO \<and>
           sublist ''doesn't match any rule using DIRECT'' (message lg)"
proof -
  let ?lg = "newLog INFO (astr addr @ '' doesn't match any rule using DIRECT'')"
  have "Tunnel_match astr rtstr t addr = Returns (proxys t ''DIRECT'', [?lg])"
    using match_rules_no_hit [OF assms] by (simp add: Tunnel_match_def)
  moreover have "level ?lg = INFO" by (simp add: newLog_def)
  moreover have "sublist ''doesn't match any rule using DIRECT'' (message ?lg)"
  proof -
    have "message ?lg = (astr addr @ '' '') @ ''doesn't match any rule using DIRECT'' @ []"
      by (simp add: newLog_def)
    then show ?thesis unfolding sublist_def by blast
  qed
  ultimately show ?thesis by blast
qed

theorem match_falls_back_to_DIRECT_witness:
  "rules tunnel_no_hit = [NewFinal_spec ''NONEXISTENT''] \<and>
   passed_over (proxys tunnel_no_hit) addr_domain (NewFinal_spec ''NONEXISTENT'') \<and>
   Tunnel_match Addr_String_spec RuleType_String_spec tunnel_no_hit addr_domain
     = Returns (Some (ProxyDirect ()),
         [newLog INFO ''example.com:443 doesn't match any rule using DIRECT''])"
proof -
  have p: "\<forall>q \<in> set (rules tunnel_no_hit). passed_over (proxys tunnel_no_hit) addr_domain q"
    by (simp add: passed_over_def tunnel_no_hit_def NewFinal_spec_def Final_IsMatch_spec_def)
  have d: "proxys tunnel_no_hit ''DIRECT'' = Some (ProxyDirect ())"
    by (simp add: tunnel_no_hit_def)
  obtain lg where
    "Tunnel_match Addr_String_spec RuleType_String_spec tunnel_no_hit addr_domain
       = Returns (proxys tunnel_no_hit ''DIRECT'', [lg])"
    using match_falls_back_to_DIRECT [OF p] by blast
  moreover have "Tunnel_match Addr_String_spec RuleType_String_spec tunnel_no_hit addr_domain
       = Returns (proxys tunnel_no_hit ''DIRECT'',
           [newLog INFO ''example.com:443 doesn't match any rule using DIRECT''])"
    by (simp add: Tunnel_match_def tunnel_no_hit_def NewFinal_spec_def Final_IsMatch_spec_def
        Addr_String_spec_def addr_domain_def)
  ultimately show ?thesis using p d by (simp add: tunnel_no_hit_def)
qed

text \<open>
  C3, as stated, fails. The first rule of this tunnel matches the address and names an
  adapter that the proxy map does not have. The only record sent is that of the match of
  the second rule: it is the same list of records as for the traversal without the first
  rule, so no record is sent for the unknown adapter.
\<close>

theorem match_unknown_adapter_counterexample:
  "IsMatch (NewFinal_spec ''NONEXISTENT'') addr_domain = Returns True \<and>
   proxys tunnel_unknown_adapter (Adapter (NewFinal_spec ''NONEXISTENT'')) = None \<and>
   rules tunnel_unknown_adapter
     = [NewFinal_spec ''NONEXISTENT'', NewFinal_spec ''REJECT'', NewFinal_spec ''DIRECT''] \<and>
   emitted (Tunnel_match Addr_String_spec RuleType_String_spec tunnel_unknown_adapter addr_domain)
     = [newLog INFO ''example.com:443 match FINAL using REJECT''] \<and>
   emitted (Tunnel_match Addr_String_spec RuleType_String_spec tunnel_unknown_adapter addr_domain)
     = emitted (Tunnel_match Addr_String_spec RuleType_String_spec
         (tunnel_unknown_adapter\<lparr>rules := [NewFinal_spec ''REJECT'', NewFinal_spec ''DIRECT'']\<rparr>)
         addr_domain)"
  by (simp add: Tunnel_match_def tunnel_unknown_adapter_def NewFinal_spec_def
      Final_IsMatch_spec_def Addr_String_spec_def addr_domain_def emitted_def)

text \<open>
  C3, amended. When a rule's predicate matches the address and the rule's adapter is not
  in the proxy map, the traversal goes on with the next rule in order: the result of
  \<open>match\<close>, and the records it sends, are those of the traversal of the rules after it.
  No record is sent for the rule itself.
\<close>

theorem match_unknown_adapter_continues:
  assumes "rules t = pre @ rule # rest"
    and "\<forall>q \<in> set pre. passed_over (proxys t) addr q"
    and "IsMatch rule addr = Returns True"
    and "proxys t (Adapter rule) = None"
  shows "Tunnel_match astr rtstr t addr = Tunnel_match astr rtstr (t\<lparr>rules := rest\<rparr>) addr"
proof -
  have "\<forall>q \<in> set (pre @ [rule]). passed_over (proxys t) addr q"
    using assms(2,3,4) by (simp add: passed_over_def)
  then have "match_rules astr rtstr (proxys t) addr ((pre @ [rule]) @ rest)
      = match_rules astr rtstr (proxys t) addr rest"
    by (rule match_rules_passed_over)
  then show ?thesis
    using assms(1) by (simp add: Tunnel_match_def)
qed

theorem match_unknown_adapter_continues_witness:
  "rules tunnel_unknown_adapter
     = [] @ NewFinal_spec ''NONEXISTENT'' # [NewFinal_spec ''REJECT'', NewFinal_spec ''DIRECT''] \<and>
   IsMatch (NewFinal_spec ''NONEXISTENT'') addr_domain = Returns True \<and>
   proxys tunnel_unknown_adapter (Adapter (NewFinal_spec ''NONEXISTENT'')) = None \<and>
   Tunnel_match Addr_String_spec RuleType_String_spec tunnel_unknown_adapter addr_domain
     = Tunnel_match Addr_String_spec RuleType_String_spec
         (tunnel_unknown_adapter\<lparr>rules := [NewFinal_spec ''REJECT'', NewFinal_spec ''DIRECT'']\<rparr>)
         addr_domain"
proof -
  have r: "rules tunnel_unknown_adapter
     = [] @ NewFinal_spec ''NONEXISTENT'' # [NewFinal_spec ''REJECT'', NewFinal_spec ''DIRECT'']"
    by (simp add: tunnel_unknown_adapter_def)
  have p: "\<forall>q \<in> set []. passed_over (proxys tunnel_unknown_adapter) addr_domain q"
    by simp
  have m: "IsMatch (NewFinal_spec ''NONEXISTENT'') addr_domain = Returns True"
    by (simp add: NewFinal_spec_def Final_IsMatch_spec_def)
  have a: "proxys tunnel_unknown_adapter (Adapter (NewFinal_spec ''NONEXISTENT'')) = None"
    by (simp add: tunnel_unknown_adapter_def NewFinal_spec_def)
  show ?thesis
    using match_unknown_adapter_continues [OF r p m a] r m a by simp
qed

section \<open>Properties of the address header\<close>

lemma char_of_byte_of_char: "char_of_byte (byte_of_char c) = c"
  by (simp add: char_of_byte_def byte_of_char_def unat_of_nat)

lemma string_of_bytes_of_string: "string_of_bytes (bytes_of_string s) = s"
  by (induction s) (simp_all add: string_of_bytes_def bytes_of_string_def char_of_byte_of_char)

lemma decimal_fold_mono: "n \<le> foldl (\<lambda>n c. n * 10 + digit_val c) n s"
proof (induction s arbitrary: n)
  case Nil
  show ?case by simp
next
  case (Cons c s)
  have "n \<le> n * 10 + digit_val c" by simp
  also have "\<dots> \<le> foldl (\<lambda>n c. n * 10 + digit_val c) (n * 10 + digit_val c) s"
    by (rule Cons.IH)
  finally show ?case by simp
qed

lemma ParseUint_loop_small:
  assumes "list_all is_digit s"
    and "foldl (\<lambda>n c. n * 10 + digit_val c) n s \<le> 65535"
  shows "ParseUint_loop n s = UVal (foldl (\<lambda>n c. n * 10 + digit_val c) n s)"
  using assms
proof (induction s arbitrary: n)
  case Nil
  show ?case by simp
next
  case (Cons c s)
  let ?n1 = "n * 10 + digit_val c"
  have le1: "?n1 \<le> 65535"
    using decimal_fold_mono [of ?n1 s] Cons.prems(2) by simp
  then have le0: "n \<le> 65535" by simp
  have a: "\<not> n \<ge> maxUint64 div 10 + 1"
    using le0 by (simp add: maxUint64_def)
  have b: "\<not> ?n1 > maxUint64"
    using le1 by (simp add: maxUint64_def)
  have "ParseUint_loop ?n1 s = UVal (foldl (\<lambda>n c. n * 10 + digit_val c) ?n1 s)"
    using Cons.prems by (intro Cons.IH) simp_all
  then show ?case
    using Cons.prems(1) a b by (simp add: Let_def)
qed

lemma is_digit_not_sign: "is_digit c \<Longrightarrow> c \<noteq> CHR ''+'' \<and> c \<noteq> CHR ''-''"
  by (auto simp: is_digit_def)

lemma Atoi_decimal:
  assumes "decimal s" and "decimal_value s \<le> 65535"
  shows "Atoi s = int (decimal_value s)"
proof -
  obtain c cs where s: "s = c # cs"
    using assms(1) by (cases s) (auto simp: decimal_def)
  have dig: "list_all is_digit s" using assms(1) by (simp add: decimal_def)
  then have "is_digit c" by (simp add: s)
  then have ns: "c \<noteq> CHR ''+''" "c \<noteq> CHR ''-''"
    using is_digit_not_sign by blast+
  have pu: "ParseUint s = UVal (decimal_value s)"
    using ParseUint_loop_small [OF dig, of 0] assms(2) s
    by (simp add: ParseUint_def decimal_value_def)
  have "decimal_value s < 2 ^ 63" using assms(2) by simp
  then show ?thesis
    using ns pu by (simp add: Atoi_def s [symmetric] Let_def) (simp add: s)
qed

lemma port_bytes:
  assumes "v \<le> 65535"
  shows "decode_port_spec [word_of_int (drop_bit 8 (int v)), word_of_int (int v AND 255)] = v"
proof -
  have hi: "unat (word_of_int (drop_bit 8 (int v)) :: byte) = v div 256"
  proof -
    have "drop_bit 8 (int v) = int (v div 256)"
      by (simp add: drop_bit_eq_div zdiv_int)
    moreover have "v div 256 < 256" using assms by simp
    ultimately show ?thesis
      by (simp add: unat_of_nat)
  qed
  have lo: "unat (word_of_int (int v AND 255) :: byte) = v mod 256"
  proof -
    have "int v AND 255 = int v AND mask 8" by (simp add: mask_eq_exp_minus_1)
    also have "\<dots> = take_bit 8 (int v)" by (simp add: take_bit_eq_mask)
    also have "\<dots> = int v mod 256" by (simp add: take_bit_eq_mod)
    also have "\<dots> = int (v mod 256)" by (simp add: zmod_int)
    finally show ?thesis by (simp add: unat_of_nat)
  qed
  show ?thesis by (simp add: decode_port_spec_def hi lo)
qed

lemma decode_fixed_spec_append:
  assumes "length a = n" and "v \<le> 65535"
  shows "decode_fixed_spec mk n
           (a @ [word_of_int (drop_bit 8 (int v)), word_of_int (int v AND 255)] @ rest)
         = Some (mk a, v, rest)"
  using assms port_bytes [OF assms(2)]
  by (simp add: decode_fixed_spec_def)

lemma serialize_domain:
  assumes "decimal (Port addr)" and "decimal_value (Port addr) \<le> 65535"
    and "AddrType addr = AtypDomainName" and "length (Host addr) \<le> 255"
  shows "\<exists>bs. serializesSocksAddr addr = Returns bs \<and>
      decode_socks_addr_spec (bs @ rest)
        = Some (HostDomain (Host addr), decimal_value (Port addr), rest)"
proof -
  let ?v = "decimal_value (Port addr)"
  let ?port = "[word_of_int (drop_bit 8 (int ?v)), word_of_int (int ?v AND 255)] :: byte list"
  let ?host = "bytes_of_string (Host addr)"
  let ?bs = "[3, of_nat (length (Host addr))] @ ?host @ ?port"
  have ser: "serializesSocksAddr addr = Returns ?bs"
    using assms(3) Atoi_decimal [OF assms(1,2)]
    by (simp add: serializesSocksAddr_def AtypDomainName_def Let_def)
  have len: "unat (of_nat (length (Host addr)) :: byte) = length ?host"
    using assms(4) by (simp add: unat_of_nat bytes_of_string_def)
  have "decode_fixed_spec (\<lambda>a. HostDomain (string_of_bytes a))
          (unat (of_nat (length (Host addr)) :: byte)) (?host @ ?port @ rest)
        = Some (HostDomain (string_of_bytes ?host), ?v, rest)"
    using len assms(2) by (intro decode_fixed_spec_append) simp_all
  then have "decode_socks_addr_spec (?bs @ rest) = Some (HostDomain (Host addr), ?v, rest)"
    by (simp add: string_of_bytes_of_string)
  with ser show ?thesis by blast
qed

lemma To4_length:
  assumes "length ip = 4 \<or> (length ip = 16 \<and> take 12 ip = v4InV6Prefix)"
  shows "length (To4 ip) = 4"
  using assms by (auto simp: To4_def)

lemma serialize_ipv4:
  assumes "decimal (Port addr)" and "decimal_value (Port addr) \<le> 65535"
    and "AddrType addr = AtypIPv4" and "IP addr = Some ip"
    and "length ip = 4 \<or> (length ip = 16 \<and> take 12 ip = v4InV6Prefix)"
  shows "\<exists>bs. serializesSocksAddr addr = Returns bs \<and>
      decode_socks_addr_spec (bs @ rest)
        = Some (HostIPv4 (To4 ip), decimal_value (Port addr), rest)"
proof -
  let ?v = "decimal_value (Port addr)"
  let ?port = "[word_of_int (drop_bit 8 (int ?v)), word_of_int (int ?v AND 255)] :: byte list"
  let ?bs = "[1] @ To4 ip @ ?port"
  have ser: "serializesSocksAddr addr = Returns ?bs"
    using assms(3,4) Atoi_decimal [OF assms(1,2)]
    by (simp add: serializesSocksAddr_def AtypIPv4_def AtypDomainName_def Let_def)
  have "decode_fixed_spec HostIPv4 4 (To4 ip @ ?port @ rest) = Some (HostIPv4 (To4 ip), ?v, rest)"
    using To4_length [OF assms(5)] assms(2) by (intro decode_fixed_spec_append) simp_all
  then have "decode_socks_addr_spec (?bs @ rest) = Some (HostIPv4 (To4 ip), ?v, rest)"
    by simp
  with ser show ?thesis by blast
qed

lemma serialize_ipv6:
  assumes "decimal (Port addr)" and "decimal_value (Port addr) \<le> 65535"
    and "AddrType addr = AtypIPv6" and "IP addr = Some ip" and "length ip = 16"
  shows "\<exists>bs. serializesSocksAddr addr = Returns bs \<and>
      decode_socks_addr_spec (bs @ rest)
        = Some (HostIPv6 ip, decimal_value (Port addr), rest)"
proof -
  let ?v = "decimal_value (Port addr)"
  let ?port = "[word_of_int (drop_bit 8 (int ?v)), word_of_int (int ?v AND 255)] :: byte list"
  let ?bs = "[4] @ ip @ ?port"
  have ser: "serializesSocksAddr addr = Returns ?bs"
    using assms(3,4,5) Atoi_decimal [OF assms(1,2)]
    by (simp add: serializesSocksAddr_def AtypIPv4_def AtypIPv6_def AtypDomainName_def
        To16_def Let_def)
  have "decode_fixed_spec HostIPv6 16 (ip @ ?port @ rest) = Some (HostIPv6 ip, ?v, rest)"
    using assms(5,2) by (intro decode_fixed_spec_append) simp_all
  then have "decode_socks_addr_spec (?bs @ rest) = Some (HostIPv6 ip, ?v, rest)"
    by simp
  with ser show ?thesis by blast
qed

text \<open>
  C7. For an address whose port is a string of decimal digits denoting a number of at most
  65535, reading the output of \<open>serializesSocksAddr\<close> by the framing of section 6.2
  gives back the host of a domain address of at most 255 bytes, the four bytes of the IP
  of an IPv4 address, the sixteen bytes of the IP of an IPv6 address, and in each case
  the port; the bytes after the header are left. For the two IP types \<open>addr.IP\<close> is
  present, as the IP is what is recovered.
\<close>

theorem serializesSocksAddr_roundtrip:
  assumes "decimal (Port addr)" and "decimal_value (Port addr) \<le> 65535"
  shows
    "(AddrType addr = AtypDomainName \<and> length (Host addr) \<le> 255 \<longrightarrow>
        (\<exists>bs. serializesSocksAddr addr = Returns bs \<and>
           decode_socks_addr_spec (bs @ rest)
             = Some (HostDomain (Host addr), decimal_value (Port addr), rest))) \<and>
     (\<forall>ip. AddrType addr = AtypIPv4 \<and> IP addr = Some ip \<and>
           (length ip = 4 \<or> (length ip = 16 \<and> take 12 ip = v4InV6Prefix)) \<longrightarrow>
        (\<exists>bs. serializesSocksAddr addr = Returns bs \<and>
           decode_socks_addr_spec (bs @ rest)
             = Some (HostIPv4 (To4 ip), decimal_value (Port addr), rest)) \<and>
        (length ip = 4 \<longrightarrow> To4 ip = ip)) \<and>
     (\<forall>ip. AddrType addr = AtypIPv6 \<and> IP addr = Some ip \<and> length ip = 16 \<longrightarrow>
        (\<exists>bs. serializesSocksAddr addr = Returns bs \<and>
           decode_socks_addr_spec (bs @ rest)
             = Some (HostIPv6 ip, decimal_value (Port addr), rest)))"
proof (intro conjI allI impI)
  assume "AddrType addr = AtypDomainName \<and> length (Host addr) \<le> 255"
  then show "\<exists>bs. serializesSocksAddr addr = Returns bs \<and>
           decode_socks_addr_spec (bs @ rest)
             = Some (HostDomain (Host addr), decimal_value (Port addr), rest)"
    using serialize_domain [OF assms] by blast
next
  fix ip
  assume "AddrType addr = AtypIPv4 \<and> IP addr = Some ip \<and>
           (length ip = 4 \<or> (length ip = 16 \<and> take 12 ip = v4InV6Prefix))"
  then show "\<exists>bs. serializesSocksAddr addr = Returns bs \<and>
           decode_socks_addr_spec (bs @ rest)
             = Some (HostIPv4 (To4 ip), decimal_value (Port addr), rest)"
    using serialize_ipv4 [OF assms] by blast
next
  fix ip :: "byte list"
  assume "length ip = 4"
  then show "To4 ip = ip" by (simp add: To4_def)
next
  fix ip
  assume "AddrType addr = AtypIPv6 \<and> IP addr = Some ip \<and> length ip = 16"
  then show "\<exists>bs. serializesSocksAddr addr = Returns bs \<and>
           decode_socks_addr_spec (bs @ rest)
             = Some (HostIPv6 ip, decimal_value (Port addr), rest)"
    using serialize_ipv6 [OF assms] by blast
qed

lemma Atoi_443: "Atoi ''443'' = 443"
  by (simp add: Atoi_def ParseUint_def is_digit_def digit_val_def maxUint64_def)

lemma Atoi_19999: "Atoi ''19999'' = 19999"
  by (simp add: Atoi_def ParseUint_def is_digit_def digit_val_def maxUint64_def)

lemma Atoi_80: "Atoi ''80'' = 80"
  by (simp add: Atoi_def ParseUint_def is_digit_def digit_val_def maxUint64_def)

lemma serializesSocksAddr_addr_domain:
  "serializesSocksAddr addr_domain
     = Returns [3, 11, 101, 120, 97, 109, 112, 108, 101, 46, 99, 111, 109, 1, 187]"
  by (simp add: serializesSocksAddr_def addr_domain_def AtypDomainName_def Atoi_443
      bytes_of_string_def byte_of_char_def Let_def)

lemma serializesSocksAddr_addr_ipv4:
  "serializesSocksAddr addr_ipv4 = Returns [1, 127, 0, 0, 1, 78, 31]"
  by (simp add: serializesSocksAddr_def addr_ipv4_def AtypDomainName_def AtypIPv4_def
      Atoi_19999 To4_def Let_def)

lemma serializesSocksAddr_addr_ipv6:
  "serializesSocksAddr addr_ipv6
     = Returns [4, 0, 0, 0, 0, 0, 0, 0, 0, 0, 0, 0, 0, 0, 0, 0, 1, 0, 80]"
  by (simp add: serializesSocksAddr_def addr_ipv6_def AtypDomainName_def AtypIPv4_def
      AtypIPv6_def Atoi_80 To16_def Let_def)

theorem serializesSocksAddr_roundtrip_witness:
  "decimal (Port addr_domain) \<and> decimal_value (Port addr_domain) = 443 \<and>
   decode_socks_addr_spec [3, 11, 101, 120, 97, 109, 112, 108, 101, 46, 99, 111, 109, 1, 187]
     = Some (HostDomain ''example.com'', 443, []) \<and>
   decimal (Port addr_ipv4) \<and> decimal_value (Port addr_ipv4) = 19999 \<and>
   decode_socks_addr_spec [1, 127, 0, 0, 1, 78, 31]
     = Some (HostIPv4 [127, 0, 0, 1], 19999, []) \<and>
   decimal (Port addr_ipv6) \<and> decimal_value (Port addr_ipv6) = 80 \<and>
   decode_socks_addr_spec [4, 0, 0, 0, 0, 0, 0, 0, 0, 0, 0, 0, 0, 0, 0, 0, 1, 0, 80]
     = Some (HostIPv6 [0, 0, 0, 0, 0, 0, 0, 0, 0, 0, 0, 0, 0, 0, 0, 1], 80, [])"
proof -
  have d1: "decimal (Port addr_domain)" and v1: "decimal_value (Port addr_domain) = 443"
    by (simp_all add: decimal_def decimal_value_def addr_domain_def is_digit_def digit_val_def)
  have d2: "decimal (Port addr_ipv4)" and v2: "decimal_value (Port addr_ipv4) = 19999"
    by (simp_all add: decimal_def decimal_value_def addr_ipv4_def is_digit_def digit_val_def)
  have d3: "decimal (Port addr_ipv6)" and v3: "decimal_value (Port addr_ipv6) = 80"
    by (simp_all add: decimal_def decimal_value_def addr_ipv6_def is_digit_def digit_val_def)
  have b1: "decimal_value (Port addr_domain) \<le> 65535" by (simp add: v1)
  have b2: "decimal_value (Port addr_ipv4) \<le> 65535" by (simp add: v2)
  have b3: "decimal_value (Port addr_ipv6) \<le> 65535" by (simp add: v3)
  have r1: "decode_socks_addr_spec
      ([3, 11, 101, 120, 97, 109, 112, 108, 101, 46, 99, 111, 109, 1, 187] @ [])
     = Some (HostDomain ''example.com'', 443, [])"
    using serializesSocksAddr_roundtrip [OF d1 b1, of "[]"] serializesSocksAddr_addr_domain v1
    by (simp add: addr_domain_def)
  have r2: "decode_socks_addr_spec ([1, 127, 0, 0, 1, 78, 31] @ [])
     = Some (HostIPv4 [127, 0, 0, 1], 19999, [])"
    using serializesSocksAddr_roundtrip [OF d2 b2, of "[]"] serializesSocksAddr_addr_ipv4 v2
    by (simp add: addr_ipv4_def To4_def)
  have r3: "decode_socks_addr_spec
      ([4, 0, 0, 0, 0, 0, 0, 0, 0, 0, 0, 0, 0, 0, 0, 0, 1, 0, 80] @ [])
     = Some (HostIPv6 [0, 0, 0, 0, 0, 0, 0, 0, 0, 0, 0, 0, 0, 0, 0, 1], 80, [])"
    using serializesSocksAddr_roundtrip [OF d3 b3, of "[]"] serializesSocksAddr_addr_ipv6 v3
    by (simp add: addr_ipv6_def)
  show ?thesis
    using d1 v1 d2 v2 d3 v3 r1 r2 r3 by simp
qed

section \<open>Properties of the GEOIP rule\<close>

text \<open>
  C6, as stated, fails where it says that an error of the lookup gives false. The source
  drops the error. A lookup that fails with an empty record makes a rule with the empty
  country code match; a lookup that fails with a nil record makes \<open>IsMatch\<close> panic.
\<close>

theorem GEOIP_IsMatch_lookup_error_counterexample:
  "IP addr_ipv4 = Some [127, 0, 0, 1] \<and>
   snd (mmdb_failing [127, 0, 0, 1]) = Some ''lookup failed'' \<and>
   GEOIP_IsMatch mmdb_failing (NewGEOIP [] ''DIRECT'') addr_ipv4 = Returns True \<and>
   snd (mmdb_failing_nil [127, 0, 0, 1]) = Some ''invalid method'' \<and>
   GEOIP_IsMatch mmdb_failing_nil (NewGEOIP ''CN'' ''DIRECT'') addr_ipv4 = Panics"
  by (simp add: GEOIP_IsMatch_def mmdb_failing_def mmdb_failing_nil_def NewGEOIP_def
      addr_ipv4_def AddrFromSlice_def)

text \<open>
  C6, amended. \<open>IsMatch\<close> returns true if and only if the IP of the address is present,
  has 4 or 16 bytes, and the record that the lookup returns has an ISO code equal to the
  country of the rule. It returns false when the IP is absent. The error of the lookup is
  not examined: two readers that return the same records give the same result.
\<close>

theorem GEOIP_IsMatch_decided_by_record:
  "(GEOIP_IsMatch db g addr = Returns True \<longleftrightarrow>
      (\<exists>ip rec. IP addr = Some ip \<and> (length ip = 4 \<or> length ip = 16) \<and>
         fst (db ip) = Some rec \<and> ISOCode rec = country g)) \<and>
   (IP addr = None \<longrightarrow> GEOIP_IsMatch db g addr = Returns False) \<and>
   (\<forall>db'. (\<forall>ip. fst (db' ip) = fst (db ip)) \<longrightarrow>
      GEOIP_IsMatch db' g addr = GEOIP_IsMatch db g addr)"
  by (auto simp: GEOIP_IsMatch_def AddrFromSlice_def split: option.splits if_splits)

theorem GEOIP_IsMatch_decided_by_record_witness:
  "IP addr_ipv4 = Some [127, 0, 0, 1] \<and> length [127, 0, 0, 1 :: byte] = 4 \<and>
   fst (mmdb_example [127, 0, 0, 1]) = Some \<lparr>ISOCode = ''CN''\<rparr> \<and>
   ISOCode \<lparr>ISOCode = ''CN''\<rparr> = country (NewGEOIP ''CN'' ''DIRECT'') \<and>
   GEOIP_IsMatch mmdb_example (NewGEOIP ''CN'' ''DIRECT'') addr_ipv4 = Returns True \<and>
   IP addr_domain = None \<and>
   GEOIP_IsMatch mmdb_example (NewGEOIP ''CN'' ''DIRECT'') addr_domain = Returns False"
proof -
  have a: "IP addr_ipv4 = Some [127, 0, 0, 1]" by (simp add: addr_ipv4_def)
  have b: "fst (mmdb_example [127, 0, 0, 1]) = Some \<lparr>ISOCode = ''CN''\<rparr>"
    by (simp add: mmdb_example_def)
  have c: "ISOCode \<lparr>ISOCode = ''CN''\<rparr> = country (NewGEOIP ''CN'' ''DIRECT'')"
    by (simp add: NewGEOIP_def)
  have d: "IP addr_domain = None" by (simp add: addr_domain_def)
  have "\<exists>ip rec. IP addr_ipv4 = Some ip \<and> (length ip = 4 \<or> length ip = 16) \<and>
         fst (mmdb_example ip) = Some rec \<and> ISOCode rec = country (NewGEOIP ''CN'' ''DIRECT'')"
    using a b c by simp
  then have t: "GEOIP_IsMatch mmdb_example (NewGEOIP ''CN'' ''DIRECT'') addr_ipv4 = Returns True"
    using GEOIP_IsMatch_decided_by_record [of mmdb_example "NewGEOIP ''CN'' ''DIRECT''" addr_ipv4]
    by blast
  have f: "GEOIP_IsMatch mmdb_example (NewGEOIP ''CN'' ''DIRECT'') addr_domain = Returns False"
    using GEOIP_IsMatch_decided_by_record [of mmdb_example "NewGEOIP ''CN'' ''DIRECT''" addr_domain] d
    by blast
  show ?thesis using a b c d t f by simp
qed

section \<open>Properties of the ShadowSocks generator\<close>

text \<open>
  C5 says that \<open>Generator\<close> returns an adapter that is not nil only when the dial, the
  cipher wrapping and the write of the address header all succeed. At this input the dial
  succeeds and the write of the header fails: the generator returns the error of the
  write together with an adapter that is not nil and holds the open connection.
\<close>

theorem Generator_write_error_returns_adapter:
  "net_Dial network_write_fails (server ss_example) = Inr 7 \<and>
   serializesSocksAddr addr_domain
     = Returns [3, 11, 101, 120, 97, 109, 112, 108, 101, 46, 99, 111, 109, 1, 187] \<and>
   conn_Write network_write_fails (StreamConn ''aes-256-cfb'' (TCPConn 7 True))
       [3, 11, 101, 120, 97, 109, 112, 108, 101, 46, 99, 111, 109, 1, 187]
     = (0, Some ''broken pipe'') \<and>
   Generator network_write_fails ss_example addr_domain
     = Returns (Some \<lparr>conn = TrafficTrack (StreamConn ''aes-256-cfb'' (TCPConn 7 True)) ()\<rparr>,
                Some ''broken pipe'')"
  by (simp add: Generator_def network_write_fails_def dial_ok_def write_fails_def
      ss_example_def serializesSocksAddr_addr_domain NewTrafficTrack_def)

section \<open>Properties of UpdateConfig\<close>

lemma UpdateConfig_not_installed:
  assumes "fst (UpdateConfig d t) \<noteq> Returns None"
  shows "snd (UpdateConfig d t) = (t, {})"
  using assms
  by (auto simp: UpdateConfig_def Let_def split: sum.splits outcome.splits)

lemma UpdateConfig_installed:
  assumes "UpdateConfig d t = (Returns None, t', cl)"
  shows "proxys t' ''DIRECT'' = Some (NewDirect (traffic t)) \<and>
         proxys t' ''REJECT'' = Some NewReject"
  using assms
  by (auto simp: UpdateConfig_def Let_def split: sum.splits outcome.splits)

lemma proxys_loop_ss_error:
  assumes "ss_entry d key"
    and "NewShadowSocks d (Name key) (ss_url d key) tr = Inl err"
  shows "proxys_loop d tr (key # keys) ps = Returns (Inl err)"
proof -
  obtain kind fs where f: "trimArr d (Split (Value key) CHR '','') = kind # fs"
    using assms(1) by (auto simp: ss_entry_def entry_fields_def split: list.splits)
  have k: "kind = ''ss''" and l: "\<not> length (kind # fs) < 5"
    using assms(1) f by (simp_all add: ss_entry_def entry_fields_def)
  have n: "length (Split (Value key) CHR '','') \<noteq> 0"
    by (cases "Value key") (simp_all split: list.splits)
  show ?thesis
    using assms(2) f k l n
    by (simp add: ss_url_def entry_fields_def Let_def)
qed

lemma Split_nonempty: "Split s c \<noteq> []"
  by (cases s) (simp_all split: list.splits)

lemma proxys_loop_passed_entry:
  assumes "passed_entry d key"
  shows "proxys_loop d tr (key # keys) ps = proxys_loop d tr keys ps"
proof -
  obtain kind fs where f: "trimArr d (Split (Value key) CHR '','') = kind # fs"
    using assms by (auto simp: passed_entry_def entry_fields_def split: list.splits)
  have k: "kind \<noteq> ''ss'' \<or> length (kind # fs) < 5"
    using assms f by (simp add: passed_entry_def entry_fields_def)
  show ?thesis
    using f k by (auto simp: Let_def)
qed

lemma proxys_loop_append:
  "proxys_loop d tr (pre @ rest) ps =
     (case proxys_loop d tr pre ps of
        Returns (Inr ps') \<Rightarrow> proxys_loop d tr rest ps'
      | Returns (Inl err) \<Rightarrow> Returns (Inl err)
      | Panics \<Rightarrow> Panics)"
proof (induction pre arbitrary: ps)
  case Nil
  show ?case by simp
next
  case (Cons key pre)
  show ?case
    by (simp add: Cons.IH Let_def fun_upd_def split: list.splits sum.splits)
qed

subsection \<open>The loops do not read the configuration file through their dependencies\<close>

lemma NewShadowSocks_GetConfig [simp]:
  "NewShadowSocks (d\<lparr>GetConfig := g\<rparr>) nm url tr = NewShadowSocks d nm url tr"
  by (simp add: NewShadowSocks_def)

lemma proxys_loop_GetConfig [simp]:
  "proxys_loop (d\<lparr>GetConfig := g\<rparr>) tr keys ps = proxys_loop d tr keys ps"
  by (induction keys arbitrary: ps) (simp_all add: Let_def split: list.splits sum.splits)

lemma make_rule_GetConfig [simp]:
  "make_rule (d\<lparr>GetConfig := g\<rparr>) rule = make_rule d rule"
  by (cases rule) (simp_all add: make_rule_def)

lemma rules_loop_GetConfig [simp]:
  "rules_loop (d\<lparr>GetConfig := g\<rparr>) keys rs = rules_loop d keys rs"
  by (induction keys arbitrary: rs)
    (simp_all add: Let_def split: outcome.splits option.splits)

lemma groups_loop_GetConfig [simp]:
  "groups_loop (d\<lparr>GetConfig := g\<rparr>) keys ps = groups_loop d keys ps"
  by (induction keys arbitrary: ps) (simp_all add: Let_def split: list.splits sum.splits)

lemma proxys_loop_drop_passed:
  assumes "passed_entry d key"
  shows "proxys_loop d tr (pre @ key # post) ps = proxys_loop d tr (pre @ post) ps"
  by (simp only: proxys_loop_append [of d tr pre] proxys_loop_passed_entry [OF assms])

lemma UpdateConfig_drop_passed:
  assumes "GetConfig d = Inr cfg" and "cfg ''Proxy'' = pre @ key # post"
    and "passed_entry d key"
  shows "UpdateConfig d t = UpdateConfig (d\<lparr>GetConfig := Inr (cfg(''Proxy'' := pre @ post))\<rparr>) t"
  using assms(1,2) proxys_loop_drop_passed [OF assms(3), of "traffic t" pre post Map.empty]
  by (simp add: UpdateConfig_def split: outcome.splits sum.splits)

lemma UpdateConfig_ss_error:
  assumes "GetConfig d = Inr cfg" and "cfg ''Proxy'' = pre @ key # post"
    and "proxys_loop d (traffic t) pre Map.empty = Returns (Inr ps)"
    and "ss_entry d key"
    and "NewShadowSocks d (Name key) (ss_url d key) (traffic t) = Inl err"
  shows "UpdateConfig d t = (Returns (Some err), t, {})"
  using assms(1,2,3) proxys_loop_ss_error [OF assms(4,5), of post ps]
  by (simp add: UpdateConfig_def proxys_loop_append [of d "traffic t" pre])

subsection \<open>Evaluation at the concrete configurations\<close>

lemma Split_short_entry: "Split ''ss, 1.2.3.4'' CHR '','' = [''ss'', '' 1.2.3.4'']"
  by simp

lemma entry_fields_short:
  "entry_fields (deps_example cfg) \<lparr>Name = ''short'', Value = ''ss, 1.2.3.4''\<rparr>
     = [''ss'', ''1.2.3.4'']"
  by (simp add: entry_fields_def deps_example_def trimArr_example_def trim_blanks_def)

lemma passed_entry_short:
  "passed_entry (deps_example cfg) \<lparr>Name = ''short'', Value = ''ss, 1.2.3.4''\<rparr>"
  by (simp add: passed_entry_def entry_fields_short)

lemma entry_fields_full:
  "entry_fields (deps_example cfg)
     \<lparr>Name = nm, Value = ''ss, 1.2.3.4, 8388, aes-256-cfb, secret''\<rparr>
     = [''ss'', ''1.2.3.4'', ''8388'', ''aes-256-cfb'', ''secret'']"
  by (simp add: entry_fields_def deps_example_def trimArr_example_def trim_blanks_def)

lemma entry_fields_bad_cipher:
  "entry_fields (deps_example cfg)
     \<lparr>Name = nm, Value = ''ss, 1.2.3.4, 8388, rot13, secret''\<rparr>
     = [''ss'', ''1.2.3.4'', ''8388'', ''rot13'', ''secret'']"
  by (simp add: entry_fields_def deps_example_def trimArr_example_def trim_blanks_def)

lemma url_Parse_example_full:
  "url_Parse_example ''ss://aes-256-cfb:secret@1.2.3.4:8388''
     = Inr \<lparr>url_Host = ''1.2.3.4:8388'',
            url_User = Some \<lparr>Username = ''aes-256-cfb'', Password = ''secret''\<rparr>\<rparr>"
  by (simp add: url_Parse_example_def)

lemma url_Parse_example_bad_cipher:
  "url_Parse_example ''ss://rot13:secret@1.2.3.4:8388''
     = Inr \<lparr>url_Host = ''1.2.3.4:8388'',
            url_User = Some \<lparr>Username = ''rot13'', Password = ''secret''\<rparr>\<rparr>"
  by (simp add: url_Parse_example_def)

lemma NewShadowSocks_full:
  "NewShadowSocks (deps_example cfg) nm ''ss://aes-256-cfb:secret@1.2.3.4:8388'' ()
     = Inr \<lparr>server = ''1.2.3.4:8388'', name = nm, cipher = ''aes-256-cfb'', ss_traffic = ()\<rparr>"
  by (simp add: NewShadowSocks_def parseURL_def deps_example_def url_Parse_example_full
      PickCipher_example_def)

lemma NewShadowSocks_bad_cipher:
  "NewShadowSocks (deps_example cfg) nm ''ss://rot13:secret@1.2.3.4:8388'' ()
     = Inl ''ss 1.2.3.4:8388 initialize error: cipher not supported''"
  by (simp add: NewShadowSocks_def parseURL_def deps_example_def url_Parse_example_bad_cipher
      PickCipher_example_def)

lemma proxys_loop_ss_ok:
  assumes "ss_entry d key"
    and "NewShadowSocks d (Name key) (ss_url d key) tr = Inr ss"
  shows "proxys_loop d tr (key # keys) ps
     = proxys_loop d tr keys (ps(Name key \<mapsto> ProxyShadowSocks ss))"
proof -
  obtain kind fs where f: "trimArr d (Split (Value key) CHR '','') = kind # fs"
    using assms(1) by (auto simp: ss_entry_def entry_fields_def split: list.splits)
  have k: "kind = ''ss''" and l: "\<not> length (kind # fs) < 5"
    using assms(1) f by (simp_all add: ss_entry_def entry_fields_def)
  show ?thesis
    using assms(2) f k l Split_nonempty [of "Value key" "CHR '',''"]
    by (simp add: ss_url_def entry_fields_def Let_def)
qed

lemma ss_entry_full:
  "ss_entry (deps_example cfg)
     \<lparr>Name = nm, Value = ''ss, 1.2.3.4, 8388, aes-256-cfb, secret''\<rparr>"
  by (simp add: ss_entry_def entry_fields_full)

lemma ss_url_full:
  "ss_url (deps_example cfg) \<lparr>Name = nm, Value = ''ss, 1.2.3.4, 8388, aes-256-cfb, secret''\<rparr>
     = ''ss://aes-256-cfb:secret@1.2.3.4:8388''"
  by (simp add: ss_url_def entry_fields_full)

lemma ss_entry_bad_cipher:
  "ss_entry (deps_example cfg) \<lparr>Name = nm, Value = ''ss, 1.2.3.4, 8388, rot13, secret''\<rparr>"
  by (simp add: ss_entry_def entry_fields_bad_cipher)

lemma ss_url_bad_cipher:
  "ss_url (deps_example cfg) \<lparr>Name = nm, Value = ''ss, 1.2.3.4, 8388, rot13, secret''\<rparr>
     = ''ss://rot13:secret@1.2.3.4:8388''"
  by (simp add: ss_url_def entry_fields_bad_cipher)

lemma proxys_loop_cfg_example:
  "proxys_loop (deps_example cfg) () (cfg_example ''Proxy'') Map.empty
     = Returns (Inr [''DIRECT'' \<mapsto> ProxyShadowSocks
         \<lparr>server = ''1.2.3.4:8388'', name = ''DIRECT'', cipher = ''aes-256-cfb'',
          ss_traffic = ()\<rparr>])"
proof -
  let ?k1 = "\<lparr>Name = ''DIRECT'', Value = ''ss, 1.2.3.4, 8388, aes-256-cfb, secret''\<rparr>"
  let ?k2 = "\<lparr>Name = ''short'', Value = ''ss, 1.2.3.4''\<rparr>"
  let ?ss = "\<lparr>server = ''1.2.3.4:8388'', name = ''DIRECT'', cipher = ''aes-256-cfb'',
          ss_traffic = ()\<rparr>"
  have c: "cfg_example ''Proxy'' = [?k1, ?k2]"
    by (simp add: cfg_example_def)
  have n: "NewShadowSocks (deps_example cfg) (Name ?k1) (ss_url (deps_example cfg) ?k1) () = Inr ?ss"
    by (simp add: ss_url_full NewShadowSocks_full)
  have "proxys_loop (deps_example cfg) () [?k1, ?k2] Map.empty
      = proxys_loop (deps_example cfg) () [?k2] (Map.empty(Name ?k1 \<mapsto> ProxyShadowSocks ?ss))"
    by (rule proxys_loop_ss_ok [OF ss_entry_full n])
  also have "\<dots> = proxys_loop (deps_example cfg) () [] (Map.empty(Name ?k1 \<mapsto> ProxyShadowSocks ?ss))"
    by (rule proxys_loop_passed_entry [OF passed_entry_short])
  finally show ?thesis
    by (simp add: c)
qed

lemma make_rule_GEOIP:
  "make_rule (deps_example cfg) (trimArr (deps_example cfg) (Split ''GEOIP,CN,REJECT'' CHR '',''))
     = Returns (Some (GEOIP_Rule mmdb_example (NewGEOIP ''CN'' ''REJECT'')))"
  by (simp add: make_rule_def deps_example_def trimArr_example_def trim_blanks_def)

lemma make_rule_FINAL:
  "make_rule (deps_example cfg) (trimArr (deps_example cfg) (Split ''FINAL,,NOWHERE'' CHR '',''))
     = Returns (Some (NewFinal_spec ''NOWHERE''))"
  by (simp add: make_rule_def deps_example_def trimArr_example_def trim_blanks_def)

lemma length_Split_GEOIP: "length (Split ''GEOIP,CN,REJECT'' CHR '','') = 3"
  by simp

lemma length_Split_FINAL: "length (Split ''FINAL,,NOWHERE'' CHR '','') = 3"
  by simp

lemma rules_loop_cfg_example:
  "rules_loop (deps_example cfg) (cfg_example ''Rule'') []
     = Returns [GEOIP_Rule mmdb_example (NewGEOIP ''CN'' ''REJECT''), NewFinal_spec ''NOWHERE'']"
  by (simp add: cfg_example_def make_rule_GEOIP make_rule_FINAL length_Split_GEOIP
      length_Split_FINAL Let_def del: Split.simps)

lemma Atoi_300: "Atoi ''300'' = 300"
  by (simp add: Atoi_def ParseUint_def is_digit_def digit_val_def maxUint64_def)

lemma group_fields:
  "trimArr (deps_example cfg) (Split ''url-test, DIRECT, http://probe/, 300'' CHR '','')
     = [''url-test'', ''DIRECT'', ''http://probe/'', ''300'']"
  by (simp add: deps_example_def trimArr_example_def trim_blanks_def)

lemma length_Split_group: "length (Split ''url-test, DIRECT, http://probe/, 300'' CHR '','') = 4"
  by simp

lemma groups_loop_cfg_example:
  "groups_loop (deps_example cfg) (cfg_example ''Proxy Group'') [''DIRECT'' \<mapsto> p]
     = Returns (Inr [''DIRECT'' \<mapsto> p, ''auto'' \<mapsto> ProxyURLTest ''auto''])"
  by (simp add: cfg_example_def group_fields length_Split_group Let_def Atoi_300
      List.map_filter_simps deps_example_def [of cfg, THEN arg_cong, of NewURLTest]
      NewURLTest_example_def del: Split.simps)

lemma GetConfig_deps_example: "GetConfig (deps_example cfg) = Inr cfg"
  by (simp add: deps_example_def)

lemma no_URLTest_tunnel_no_hit: "{u. ProxyURLTest u \<in> ran (proxys tunnel_no_hit)} = {}"
  by (auto simp: tunnel_no_hit_def ran_def)

lemma UpdateConfig_cfg_short_entry:
  "UpdateConfig (deps_example cfg_short_entry) tunnel_no_hit
     = (Returns None,
        \<lparr>rules = [], proxys = [''DIRECT'' \<mapsto> ProxyDirect (), ''REJECT'' \<mapsto> ProxyReject],
         traffic = ()\<rparr>,
        {})"
proof -
  let ?k = "\<lparr>Name = ''short'', Value = ''ss, 1.2.3.4''\<rparr>"
  have "proxys_loop (deps_example cfg_short_entry) () [?k] Map.empty
      = proxys_loop (deps_example cfg_short_entry) () [] Map.empty"
    by (rule proxys_loop_passed_entry [OF passed_entry_short])
  then have p: "proxys_loop (deps_example cfg_short_entry) ()
      (cfg_short_entry ''Proxy'') Map.empty = Returns (Inr Map.empty)"
    by (simp add: cfg_short_entry_def)
  have r: "rules_loop (deps_example cfg_short_entry) (cfg_short_entry ''Rule'') [] = Returns []"
    by (simp add: cfg_short_entry_def)
  have g: "groups_loop (deps_example cfg_short_entry) (cfg_short_entry ''Proxy Group'') Map.empty
      = Returns (Inr Map.empty)"
    by (simp add: cfg_short_entry_def)
  show ?thesis
    by (simp add: UpdateConfig_def GetConfig_deps_example p r g no_URLTest_tunnel_no_hit
        NewDirect_def NewReject_def tunnel_no_hit_def)
qed

text \<open>
  C4, as stated, fails where it says that a malformed entry of section Proxy makes
  \<open>UpdateConfig\<close> return an error. The only entry of this section has two fields instead
  of five: \<open>UpdateConfig\<close> returns nil and installs a snapshot without that proxy.
\<close>

theorem UpdateConfig_short_entry_counterexample:
  "GetConfig (deps_example cfg_short_entry) = Inr cfg_short_entry \<and>
   cfg_short_entry ''Proxy'' = [\<lparr>Name = ''short'', Value = ''ss, 1.2.3.4''\<rparr>] \<and>
   Split ''ss, 1.2.3.4'' CHR '','' = [''ss'', '' 1.2.3.4''] \<and>
   UpdateConfig (deps_example cfg_short_entry) tunnel_no_hit
     = (Returns None,
        \<lparr>rules = [], proxys = [''DIRECT'' \<mapsto> ProxyDirect (), ''REJECT'' \<mapsto> ProxyReject],
         traffic = ()\<rparr>,
        {})"
  using UpdateConfig_cfg_short_entry
  by (simp add: GetConfig_deps_example cfg_short_entry_def)

text \<open>
  C4, amended. Whenever \<open>UpdateConfig\<close> does not return nil (it returns an error, or
  panics), the tunnel is as it was and no URL test has been closed. An ss entry of section
  Proxy with at least five fields for which \<open>NewShadowSocks\<close> fails (the cipher cannot be
  initialised) makes \<open>UpdateConfig\<close> return that error, when the entries before it were
  read without error. An entry of another kind, or an ss entry with fewer than five
  fields, is passed over without error: \<open>UpdateConfig\<close> does what it does on the
  configuration without that entry.
\<close>

theorem UpdateConfig_error_keeps_config:
  "(fst (UpdateConfig d t) \<noteq> Returns None \<longrightarrow> snd (UpdateConfig d t) = (t, {})) \<and>
   (GetConfig d = Inr cfg \<and> cfg ''Proxy'' = pre @ key # post \<and>
    proxys_loop d (traffic t) pre Map.empty = Returns (Inr ps) \<and>
    ss_entry d key \<and>
    NewShadowSocks d (Name key) (ss_url d key) (traffic t) = Inl err \<longrightarrow>
      UpdateConfig d t = (Returns (Some err), t, {})) \<and>
   (GetConfig d = Inr cfg \<and> cfg ''Proxy'' = pre @ key # post \<and> passed_entry d key \<longrightarrow>
      UpdateConfig d t
        = UpdateConfig (d\<lparr>GetConfig := Inr (cfg(''Proxy'' := pre @ post))\<rparr>) t)"
proof (intro conjI impI)
  assume "fst (UpdateConfig d t) \<noteq> Returns None"
  then show "snd (UpdateConfig d t) = (t, {})"
    by (rule UpdateConfig_not_installed)
next
  assume "GetConfig d = Inr cfg \<and> cfg ''Proxy'' = pre @ key # post \<and>
    proxys_loop d (traffic t) pre Map.empty = Returns (Inr ps) \<and>
    ss_entry d key \<and>
    NewShadowSocks d (Name key) (ss_url d key) (traffic t) = Inl err"
  then show "UpdateConfig d t = (Returns (Some err), t, {})"
    using UpdateConfig_ss_error by blast
next
  assume "GetConfig d = Inr cfg \<and> cfg ''Proxy'' = pre @ key # post \<and> passed_entry d key"
  then show "UpdateConfig d t
        = UpdateConfig (d\<lparr>GetConfig := Inr (cfg(''Proxy'' := pre @ post))\<rparr>) t"
    using UpdateConfig_drop_passed by blast
qed

theorem UpdateConfig_error_keeps_config_witness:
  "GetConfig (deps_example cfg_bad_cipher) = Inr cfg_bad_cipher \<and>
   cfg_bad_cipher ''Proxy''
     = [] @ \<lparr>Name = ''ss1'', Value = ''ss, 1.2.3.4, 8388, rot13, secret''\<rparr> # [] \<and>
   proxys_loop (deps_example cfg_bad_cipher) (traffic tunnel_no_hit) [] Map.empty
     = Returns (Inr Map.empty) \<and>
   ss_entry (deps_example cfg_bad_cipher)
     \<lparr>Name = ''ss1'', Value = ''ss, 1.2.3.4, 8388, rot13, secret''\<rparr> \<and>
   UpdateConfig (deps_example cfg_bad_cipher) tunnel_no_hit
     = (Returns (Some ''ss 1.2.3.4:8388 initialize error: cipher not supported''),
        tunnel_no_hit, {}) \<and>
   fst (UpdateConfig (deps_example cfg_bad_cipher) tunnel_no_hit) \<noteq> Returns None \<and>
   snd (UpdateConfig (deps_example cfg_bad_cipher) tunnel_no_hit) = (tunnel_no_hit, {}) \<and>
   GetConfig (deps_example cfg_short_entry) = Inr cfg_short_entry \<and>
   cfg_short_entry ''Proxy'' = [] @ \<lparr>Name = ''short'', Value = ''ss, 1.2.3.4''\<rparr> # [] \<and>
   passed_entry (deps_example cfg_short_entry) \<lparr>Name = ''short'', Value = ''ss, 1.2.3.4''\<rparr> \<and>
   UpdateConfig (deps_example cfg_short_entry) tunnel_no_hit
     = UpdateConfig
         ((deps_example cfg_short_entry)
            \<lparr>GetConfig := Inr (cfg_short_entry(''Proxy'' := [] @ []))\<rparr>)
         tunnel_no_hit"
proof -
  let ?d = "deps_example cfg_bad_cipher"
  let ?k = "\<lparr>Name = ''ss1'', Value = ''ss, 1.2.3.4, 8388, rot13, secret''\<rparr>"
  let ?err = "''ss 1.2.3.4:8388 initialize error: cipher not supported''"
  let ?d2 = "deps_example cfg_short_entry"
  let ?k2 = "\<lparr>Name = ''short'', Value = ''ss, 1.2.3.4''\<rparr>"
  have g: "GetConfig ?d = Inr cfg_bad_cipher"
    by (rule GetConfig_deps_example)
  have c: "cfg_bad_cipher ''Proxy'' = [] @ ?k # []"
    by (simp add: cfg_bad_cipher_def)
  have p: "proxys_loop ?d (traffic tunnel_no_hit) [] Map.empty = Returns (Inr Map.empty)"
    by simp
  have s: "ss_entry ?d ?k"
    by (rule ss_entry_bad_cipher)
  have n: "NewShadowSocks ?d (Name ?k) (ss_url ?d ?k) (traffic tunnel_no_hit) = Inl ?err"
    by (simp add: ss_url_bad_cipher NewShadowSocks_bad_cipher)
  have u: "UpdateConfig ?d tunnel_no_hit = (Returns (Some ?err), tunnel_no_hit, {})"
    using UpdateConfig_error_keeps_config [of ?d tunnel_no_hit cfg_bad_cipher "[]" ?k "[]"
        Map.empty ?err] g c p s n
    by blast
  have f: "fst (UpdateConfig ?d tunnel_no_hit) \<noteq> Returns None"
    by (simp add: u)
  have k: "snd (UpdateConfig ?d tunnel_no_hit) = (tunnel_no_hit, {})"
    using UpdateConfig_error_keeps_config [of ?d tunnel_no_hit] f by blast
  have g2: "GetConfig ?d2 = Inr cfg_short_entry"
    by (rule GetConfig_deps_example)
  have c2: "cfg_short_entry ''Proxy'' = [] @ ?k2 # []"
    by (simp add: cfg_short_entry_def)
  have e2: "passed_entry ?d2 ?k2"
    by (rule passed_entry_short)
  have u2: "UpdateConfig ?d2 tunnel_no_hit
     = UpdateConfig (?d2\<lparr>GetConfig := Inr (cfg_short_entry(''Proxy'' := [] @ []))\<rparr>) tunnel_no_hit"
    using UpdateConfig_error_keeps_config [of ?d2 tunnel_no_hit cfg_short_entry "[]" ?k2 "[]"]
      g2 c2 e2
    by blast
  show ?thesis
    using g c p s u f k g2 c2 e2 u2 by blast
qed

lemma UpdateConfig_cfg_example:
  "UpdateConfig (deps_example cfg_example) tunnel_empty = (Returns None, tunnel_installed, {})"
proof -
  have p: "proxys_loop (deps_example cfg_example) () (cfg_example ''Proxy'') Map.empty
     = Returns (Inr [''DIRECT'' \<mapsto> ProxyShadowSocks
         \<lparr>server = ''1.2.3.4:8388'', name = ''DIRECT'', cipher = ''aes-256-cfb'',
          ss_traffic = ()\<rparr>])"
    by (rule proxys_loop_cfg_example)
  have u: "{u. ProxyURLTest u \<in> ran (proxys tunnel_empty)} = ({} :: string set)"
    by (simp add: tunnel_empty_def)
  show ?thesis
    by (simp add: UpdateConfig_def GetConfig_deps_example p rules_loop_cfg_example
        groups_loop_cfg_example u NewDirect_def NewReject_def tunnel_empty_def
        tunnel_installed_def)
qed

text \<open>
  C9. After \<open>UpdateConfig\<close> has returned nil, the installed proxy map holds the built-in
  direct proxy under "DIRECT" and the built-in reject proxy under "REJECT", whatever the
  sections Proxy and Proxy Group have put under these names; so when \<open>match\<close> passes over
  every rule, the proxy it returns is the direct proxy and not nil.
\<close>

theorem UpdateConfig_installs_DIRECT_and_REJECT:
  assumes "UpdateConfig d t = (Returns None, t', cl)"
  shows "proxys t' ''DIRECT'' = Some (NewDirect (traffic t)) \<and>
         proxys t' ''REJECT'' = Some NewReject \<and>
         (\<forall>addr. (\<forall>q \<in> set (rules t'). passed_over (proxys t') addr q) \<longrightarrow>
            Tunnel_match astr rtstr t' addr
              = Returns (Some (NewDirect (traffic t)),
                  [newLog INFO (astr addr @ '' doesn't match any rule using DIRECT'')]))"
proof -
  have d: "proxys t' ''DIRECT'' = Some (NewDirect (traffic t))"
    and r: "proxys t' ''REJECT'' = Some NewReject"
    using UpdateConfig_installed [OF assms] by simp_all
  have "Tunnel_match astr rtstr t' addr
      = Returns (Some (NewDirect (traffic t)),
          [newLog INFO (astr addr @ '' doesn't match any rule using DIRECT'')])"
    if "\<forall>q \<in> set (rules t'). passed_over (proxys t') addr q" for addr
    using match_rules_no_hit [OF that, of astr rtstr] d by (simp add: Tunnel_match_def)
  with d r show ?thesis by blast
qed

theorem UpdateConfig_installs_DIRECT_and_REJECT_witness:
  "UpdateConfig (deps_example cfg_example) tunnel_empty = (Returns None, tunnel_installed, {}) \<and>
   Name (hd (cfg_example ''Proxy'')) = ''DIRECT'' \<and>
   proxys tunnel_installed ''DIRECT'' = Some (ProxyDirect ()) \<and>
   proxys tunnel_installed ''REJECT'' = Some ProxyReject \<and>
   rules tunnel_installed
     = [GEOIP_Rule mmdb_example (NewGEOIP ''CN'' ''REJECT''), NewFinal_spec ''NOWHERE''] \<and>
   passed_over (proxys tunnel_installed) addr_domain
     (GEOIP_Rule mmdb_example (NewGEOIP ''CN'' ''REJECT'')) \<and>
   passed_over (proxys tunnel_installed) addr_domain (NewFinal_spec ''NOWHERE'') \<and>
   Tunnel_match Addr_String_spec RuleType_String_spec tunnel_installed addr_domain
     = Returns (Some (ProxyDirect ()),
         [newLog INFO ''example.com:443 doesn't match any rule using DIRECT''])"
proof -
  note th = UpdateConfig_installs_DIRECT_and_REJECT [OF UpdateConfig_cfg_example,
      of Addr_String_spec RuleType_String_spec]
  have n: "Name (hd (cfg_example ''Proxy'')) = ''DIRECT''"
    by (simp add: cfg_example_def)
  have rs: "rules tunnel_installed
     = [GEOIP_Rule mmdb_example (NewGEOIP ''CN'' ''REJECT''), NewFinal_spec ''NOWHERE'']"
    by (simp add: tunnel_installed_def)
  have p1: "passed_over (proxys tunnel_installed) addr_domain
     (GEOIP_Rule mmdb_example (NewGEOIP ''CN'' ''REJECT''))"
    by (simp add: passed_over_def GEOIP_Rule_def GEOIP_IsMatch_def addr_domain_def)
  have p2: "passed_over (proxys tunnel_installed) addr_domain (NewFinal_spec ''NOWHERE'')"
    by (simp add: passed_over_def NewFinal_spec_def Final_IsMatch_spec_def tunnel_installed_def)
  have all: "\<forall>q \<in> set (rules tunnel_installed). passed_over (proxys tunnel_installed) addr_domain q"
    using p1 p2 by (simp add: rs)
  have m: "Tunnel_match Addr_String_spec RuleType_String_spec tunnel_installed addr_domain
     = Returns (Some (ProxyDirect ()),
         [newLog INFO ''example.com:443 doesn't match any rule using DIRECT''])"
    using th all by (simp add: NewDirect_def Addr_String_spec_def addr_domain_def)
  have d: "proxys tunnel_installed ''DIRECT'' = Some (ProxyDirect ())"
    and r: "proxys tunnel_installed ''REJECT'' = Some ProxyReject"
    using th by (simp_all add: NewDirect_def NewReject_def)
  show ?thesis
    using UpdateConfig_cfg_example n d r rs p1 p2 m by simp
qed

end
